theory Spec2Isabelle
  imports Complex_Main "HOL-Library.Sublist"
begin

section \<open>Numbers and shared helpers\<close>

text \<open>
  JavaScript numbers are modelled as exact reals; timestamps, window bounds and sample
  indices, which the program only ever computes as integers, are \<open>int\<close> and \<open>nat\<close>.
  The helpers \<open>round\<close> and \<open>clamp\<close> are declared identically in \<^verbatim>\<open>storyDay.ts\<close>,
  \<^verbatim>\<open>explainEngine.ts\<close> and the replay engine; one definition serves all three.
\<close>

text \<open>
  \<^verbatim>\<open>Number(value.toFixed(decimals))\<close>: the nearest multiple of \<open>10^-decimals\<close>; a tie
  goes to the larger magnitude (\<^verbatim>\<open>toFixed\<close> works on the absolute value and picks the
  larger candidate).
\<close>

definition round_dec :: "real \<Rightarrow> nat \<Rightarrow> real" where
  "round_dec v decimals =
     (if v < 0 then - (of_int \<lfloor>(- v) * 10 ^ decimals + 1 / 2\<rfloor> / 10 ^ decimals)
      else of_int \<lfloor>v * 10 ^ decimals + 1 / 2\<rfloor> / 10 ^ decimals)"

definition clamp :: "'a::linorder \<Rightarrow> 'a \<Rightarrow> 'a \<Rightarrow> 'a" where
  "clamp v lo hi = min hi (max lo v)"

section \<open>The synthetic day (storyDay.ts)\<close>

definition MINUTES_PER_DAY :: int where "MINUTES_PER_DAY = 24 * 60"
definition SAMPLE_STEP_MINUTES :: int where "SAMPLE_STEP_MINUTES = 5"
definition SAMPLE_COUNT :: nat where "SAMPLE_COUNT = nat (MINUTES_PER_DAY div SAMPLE_STEP_MINUTES)"
definition BATTERY_CAPACITY_KWH :: real where "BATTERY_CAPACITY_KWH = 13.5"
definition SOC_START_PCT :: real where "SOC_START_PCT = 62"
definition STEP_HOURS :: real where "STEP_HOURS = 5 / 60"

record TimeWindow =
  startMin :: int
  endMin :: int

record StorySample =
  ts :: int
  solarKw :: real
  homeKw :: real
  batteryKw :: real
  gridKw :: real
  socPct :: real

text \<open>
  \<^verbatim>\<open>ExplainContext\<close>; \<^verbatim>\<open>storyDayContext\<close> is passed where an \<^verbatim>\<open>ExplainContext\<close> is expected
  (its extra \<^verbatim>\<open>note\<close> field is never read).
\<close>

record ExplainContext =
  mode :: string
  backupReservePct :: real
  peakWindow :: TimeWindow
  stormWatchWindow :: TimeWindow
  stormWatchEnabled :: bool

definition storyDayContext :: ExplainContext where
  "storyDayContext =
     \<lparr> mode = ''Time-Based Control'',
       backupReservePct = 30,
       peakWindow = \<lparr> startMin = 17 * 60, endMin = 21 * 60 \<rparr>,
       stormWatchWindow = \<lparr> startMin = 20 * 60 + 30, endMin = 21 * 60 + 15 \<rparr>,
       stormWatchEnabled = True \<rparr>"

definition gaussian :: "real \<Rightarrow> real \<Rightarrow> real \<Rightarrow> real" where
  "gaussian minute center width =
     (let normalized = (minute - center) / width
      in exp (- 0.5 * normalized * normalized))"

definition deterministicNoise :: "nat \<Rightarrow> real \<Rightarrow> real" where
  "deterministicNoise index seed =
     (let raw = sin (real index * 12.9898 + seed * 78.233) * 43758.5453
      in raw - of_int \<lfloor>raw\<rfloor> - 0.5)"

definition isInWindow :: "int \<Rightarrow> TimeWindow \<Rightarrow> bool" where
  "isInWindow minute w \<longleftrightarrow> minute \<ge> startMin w \<and> minute < endMin w"

definition solarKwAt :: "int \<Rightarrow> nat \<Rightarrow> real" where
  "solarKwAt minute index =
     (let sunriseMin = 7 * 60; sunsetMin = 18 * 60 + 30 in
      if minute < sunriseMin \<or> minute > sunsetMin then 0
      else
        let progress = real_of_int (minute - sunriseMin) / real_of_int (sunsetMin - sunriseMin);
            arc = sin (pi * progress);
            base = 6.4 * (max 0 arc powr 1.5);
            cloudDip = 1 - 0.08 * gaussian (real_of_int minute) (13 * 60) 85;
            noise = deterministicNoise index 11 * 0.2
        in clamp (base * cloudDip + noise) 0 7)"

definition homeKwAt :: "int \<Rightarrow> nat \<Rightarrow> real" where
  "homeKwAt minute index =
     (let m = real_of_int minute;
          baseline = 0.82 + 0.1 * sin ((m / real_of_int MINUTES_PER_DAY) * pi * 2 - 1.1);
          morning = 0.82 * gaussian m (8 * 60) 70;
          midday = 0.32 * gaussian m (12 * 60 + 20) 200;
          evening = 1.55 * gaussian m (19 * 60) 120;
          late = 0.24 * gaussian m (22 * 60 + 15) 80;
          noise = deterministicNoise index 23 * 0.12
      in clamp (baseline + morning + midday + evening + late + noise) 0.55 3.6)"

definition batteryTargetKw :: "int \<Rightarrow> real \<Rightarrow> real \<Rightarrow> real \<Rightarrow> real" where
  "batteryTargetKw minute soc solar home =
     (let inPeakWindow = isInWindow minute (peakWindow storyDayContext);
          inStormWindow = (stormWatchEnabled storyDayContext
                           \<and> isInWindow minute (stormWatchWindow storyDayContext))
      in
      if inStormWindow then
        (if soc < 70 then 2.8 else if soc < 77 then 1.9 else 0.9)
      else if inPeakWindow then
        (if soc \<le> backupReservePct storyDayContext + 2 then 0
         else
           let peakDischargeCap = (if minute < 19 * 60 then 2.9 else 1.7);
               netLoadKw = max 0.25 (home - solar + 0.25)
           in - min peakDischargeCap netLoadKw)
      else
        let solarSurplus = solar - home;
            isSolarChargeWindow = (minute \<ge> 9 * 60 \<and> minute < 16 * 60 + 30)
        in
        if isSolarChargeWindow \<and> solarSurplus > 0.2 \<and> soc < 94 then
          (let chargeFactor = (if soc < 88 then 0.9 else 0.35)
           in min 3.6 (solarSurplus * chargeFactor))
        else if (minute < 5 * 60 \<or> minute \<ge> 22 * 60) \<and> soc > 56 then - 0.2
        else if minute \<ge> 5 * 60 \<and> minute < 7 * 60 \<and> soc > 54 then - 0.1
        else 0)"

definition clampBatteryBySoc :: "real \<Rightarrow> real \<Rightarrow> real" where
  "clampBatteryBySoc targetKw soc =
     (let reservePct = backupReservePct storyDayContext;
          stepHours = real_of_int SAMPLE_STEP_MINUTES / 60;
          maxChargeKw = ((100 - soc) / 100) * BATTERY_CAPACITY_KWH / stepHours;
          maxDischargeKw = ((soc - reservePct) / 100) * BATTERY_CAPACITY_KWH / stepHours
      in
      if targetKw > 0 then min targetKw (max 0 maxChargeKw)
      else if targetKw < 0 then - min \<bar>targetKw\<bar> (max 0 maxDischargeKw)
      else 0)"

text \<open>
  One iteration of the loop of \<^verbatim>\<open>buildStoryDaySamples\<close>: the sample pushed for \<open>index\<close>
  and the running (unrounded) state of charge carried to the next iteration.
\<close>

definition storyDayStep :: "real \<Rightarrow> nat \<Rightarrow> StorySample \<times> real" where
  "storyDayStep soc index =
     (let stepHours = real_of_int SAMPLE_STEP_MINUTES / 60;
          minute = int index * SAMPLE_STEP_MINUTES;
          solar = round_dec (solarKwAt minute index) 2;
          home = round_dec (homeKwAt minute index) 2;
          target0 = batteryTargetKw minute soc solar home;
          targetBatteryKw =
            (if target0 > 0 \<and> \<not> isInWindow minute (stormWatchWindow storyDayContext)
             then min target0 (max 0 (solar - home))
             else target0);
          battery = round_dec (clampBatteryBySoc targetBatteryKw soc) 2;
          grid = round_dec (home - solar + battery) 2;
          socDelta = ((battery * stepHours) / BATTERY_CAPACITY_KWH) * 100;
          soc' = clamp (soc + socDelta) (backupReservePct storyDayContext) 100
      in (\<lparr> ts = minute, solarKw = solar, homeKw = home, batteryKw = battery,
             gridKw = grid, socPct = round_dec soc' 1 \<rparr>, soc'))"

text \<open>The \<^verbatim>\<open>for\<close> loop, as recursion over the indices still to be visited.\<close>

fun storyDayLoop :: "real \<Rightarrow> nat list \<Rightarrow> StorySample list" where
  "storyDayLoop soc [] = []"
| "storyDayLoop soc (index # rest) =
     (case storyDayStep soc index of (sample, soc') \<Rightarrow> sample # storyDayLoop soc' rest)"

definition buildStoryDaySamples :: "StorySample list" where
  "buildStoryDaySamples = storyDayLoop SOC_START_PCT [0..<SAMPLE_COUNT]"

definition storyDaySamples :: "StorySample list" where
  "storyDaySamples = buildStoryDaySamples"

section \<open>Time labels (utils/time.ts)\<close>

text \<open>
  Decimal digits of a natural number, and \<^verbatim>\<open>String(n)\<close> for an integer-valued number.
\<close>

fun digitsOf :: "nat \<Rightarrow> string" where
  "digitsOf n =
     (if n < 10 then [''0123456789'' ! n]
      else digitsOf (n div 10) @ [''0123456789'' ! (n mod 10)])"

declare digitsOf.simps [simp del]

definition intToString :: "int \<Rightarrow> string" where
  "intToString i = (if i < 0 then ''-'' @ digitsOf (nat (- i)) else digitsOf (nat i))"

text \<open>
  \<^verbatim>\<open>String(x)\<close> for the measurements interpolated into evidence lines. Every such value is
  the result of \<^verbatim>\<open>round\<close> with one or two decimals (or the configured reserve percent), and
  for a value with at most two decimals JavaScript prints the integer part, then the
  decimals without trailing zeros. The model prints exactly that; of a value with more
  decimals it prints the first two.
\<close>

definition numToString :: "real \<Rightarrow> string" where
  "numToString x =
     (let n = nat \<lfloor>\<bar>x\<bar> * 100\<rfloor>;
          whole = n div 100;
          frac = n mod 100;
          sign = (if x < 0 \<and> n \<noteq> 0 then ''-'' else []);
          fracStr =
            (if frac = 0 then []
             else if frac mod 10 = 0 then ''.'' @ digitsOf (frac div 10)
             else ''.'' @ digitsOf (frac div 10) @ digitsOf (frac mod 10))
      in sign @ digitsOf whole @ fracStr)"

text \<open>The remainder operator \<^verbatim>\<open>%\<close> of JavaScript takes the sign of the dividend.\<close>

definition js_rem :: "int \<Rightarrow> int \<Rightarrow> int" where
  "js_rem a b = sgn a * (\<bar>a\<bar> mod \<bar>b\<bar>)"

definition normalizeMinute :: "int \<Rightarrow> int" where
  "normalizeMinute minute =
     (let wrapped = js_rem minute MINUTES_PER_DAY
      in if wrapped < 0 then wrapped + MINUTES_PER_DAY else wrapped)"

text \<open>\<^verbatim>\<open>Math.round\<close> is \<open>\<lfloor>x + 1/2\<rfloor>\<close>: a tie goes up.\<close>

definition clampToStep :: "int \<Rightarrow> int \<Rightarrow> int" where
  "clampToStep minute step =
     (if step \<le> 0 then minute
      else \<lfloor>real_of_int minute / real_of_int step + 1 / 2\<rfloor> * step)"

definition padStart :: "string \<Rightarrow> nat \<Rightarrow> char \<Rightarrow> string" where
  "padStart s targetLength c = replicate (targetLength - length s) c @ s"

definition minutesToLabel :: "int \<Rightarrow> string" where
  "minutesToLabel minute =
     (let normalized = normalizeMinute minute;
          hours24 = normalized div 60;
          mins = js_rem normalized 60;
          meridiem = (if hours24 \<ge> 12 then ''PM'' else ''AM'');
          hours12 = (if js_rem hours24 12 = 0 then 12 else js_rem hours24 12);
          minsLabel = padStart (intToString mins) 2 (CHR ''0'')
      in intToString hours12 @ '':'' @ minsLabel @ '' '' @ meridiem)"

text \<open>\<^verbatim>\<open>label.split(" ")\<close>.\<close>

fun splitOn :: "char \<Rightarrow> string \<Rightarrow> string list" where
  "splitOn c [] = [[]]"
| "splitOn c (x # xs) =
     (if x = c then [] # splitOn c xs
      else (case splitOn c xs of [] \<Rightarrow> [[x]] | p # ps \<Rightarrow> (x # p) # ps))"

text \<open>
  \<^verbatim>\<open>const [time, meridiem] = label.split(" ")\<close>; a missing piece is \<^verbatim>\<open>undefined\<close>, which
  a template literal prints as that word (labels of \<open>minutesToLabel\<close> always have two pieces).
\<close>

definition splitLabel :: "string \<Rightarrow> string \<times> string" where
  "splitLabel label =
     (case splitOn (CHR '' '') label of
        t # m # _ \<Rightarrow> (t, m)
      | [t] \<Rightarrow> (t, ''undefined'')
      | [] \<Rightarrow> (''undefined'', ''undefined''))"

text \<open>The en dash U+2013 and the arrow U+2192 as their UTF-8 bytes.\<close>

definition enDash :: string where
  "enDash = [CHR 0xE2, CHR 0x80, CHR 0x93]"

definition rightArrow :: string where
  "rightArrow = [CHR 0xE2, CHR 0x86, CHR 0x92]"

definition formatWindow :: "int \<Rightarrow> int \<Rightarrow> string" where
  "formatWindow startM endM =
     (case (splitLabel (minutesToLabel startM), splitLabel (minutesToLabel endM)) of
        ((startTime, startMeridiem), (endTime, endMeridiem)) \<Rightarrow>
          if startMeridiem = endMeridiem
          then startTime @ enDash @ endTime @ '' '' @ endMeridiem
          else startTime @ '' '' @ startMeridiem @ enDash @ endTime @ '' '' @ endMeridiem)"

text \<open>\<^verbatim>\<open>getSamplesInWindow\<close> of \<^verbatim>\<open>storyDay.ts\<close>: it reads the generated day.\<close>

definition getSamplesInWindow :: "int \<Rightarrow> int \<Rightarrow> StorySample list" where
  "getSamplesInWindow startM endM =
     (let roundedStart = clamp (clampToStep startM SAMPLE_STEP_MINUTES) 0 MINUTES_PER_DAY;
          roundedEnd = clamp (clampToStep endM SAMPLE_STEP_MINUTES) 0 MINUTES_PER_DAY;
          safeStart = min roundedStart roundedEnd;
          safeEnd = max roundedStart roundedEnd
      in filter (\<lambda>sample. ts sample \<ge> safeStart \<and> ts sample < safeEnd) storyDaySamples)"

section \<open>The explanation engine (explainEngine.ts)\<close>

definition MAX_EVENTS :: nat where "MAX_EVENTS = 10"

datatype ExplainEventType = Mode | Rate | Battery | Grid | Storm | Solar | Info

text \<open>The event types are string literals in the source; this is the string of each.\<close>

fun eventTypeString :: "ExplainEventType \<Rightarrow> string" where
  "eventTypeString Mode = ''mode''"
| "eventTypeString Rate = ''rate''"
| "eventTypeString Battery = ''battery''"
| "eventTypeString Grid = ''grid''"
| "eventTypeString Storm = ''storm''"
| "eventTypeString Solar = ''solar''"
| "eventTypeString Info = ''info''"

datatype ReasonCode =
    TBC_PEAK_AVOIDANCE
  | SOLAR_SURPLUS_CHARGE
  | BACKUP_RESERVE_PROTECTION
  | STORM_WATCH_PRECHARGE
  | EXPORTING_SURPLUS
  | HOLDING_CHARGE

datatype Confidence = High | Medium | Low

record BaseReason =
  title :: string
  confidence :: Confidence

record ExplainReason = BaseReason +
  code :: ReasonCode
  evidence :: "string list"

text \<open>
  An event before its timestamp is fixed
  (\<^verbatim>\<open>Omit<ExplainEvent, "id" | "tsMin"> & { proposedTsMin: number }\<close>), and the event returned.
\<close>

record EventBody =
  title :: string
  type :: ExplainEventType
  whatHappened :: string
  reasons :: "ExplainReason list"

record RawEvent = EventBody +
  proposedTsMin :: int

record ExplainEvent = EventBody +
  id_str :: string
  tsMin :: int

text \<open>
  \<^verbatim>\<open>ReplaySummary\<close> has six of the eight fields of \<^verbatim>\<open>ExplainSummary\<close>; the latter is
  modelled as its extension.
\<close>

record ReplaySummary =
  startSoc :: real
  endSoc :: real
  totalGridImportKwhApprox :: real
  totalGridExportKwhApprox :: real
  totalBatteryChargeKwhApprox :: real
  totalBatteryDischargeKwhApprox :: real

record ExplainSummary = ReplaySummary +
  minSoc :: real
  maxSoc :: real

fun reasonCatalog :: "ReasonCode \<Rightarrow> BaseReason" where
  "reasonCatalog TBC_PEAK_AVOIDANCE =
     \<lparr> BaseReason.title = ''Peak avoidance in Time-Based Control'', confidence = High \<rparr>"
| "reasonCatalog SOLAR_SURPLUS_CHARGE =
     \<lparr> BaseReason.title = ''Charging from solar surplus'', confidence = High \<rparr>"
| "reasonCatalog BACKUP_RESERVE_PROTECTION =
     \<lparr> BaseReason.title = ''Reserve protection near backup threshold'', confidence = Medium \<rparr>"
| "reasonCatalog STORM_WATCH_PRECHARGE =
     \<lparr> BaseReason.title = ''Storm Watch pre-charge behavior'', confidence = High \<rparr>"
| "reasonCatalog EXPORTING_SURPLUS =
     \<lparr> BaseReason.title = ''Exporting excess energy'', confidence = Medium \<rparr>"
| "reasonCatalog HOLDING_CHARGE =
     \<lparr> BaseReason.title = ''Holding battery level'', confidence = Low \<rparr>"

record Overlap =
  overlaps :: bool
  overlapStart :: int
  overlapEnd :: int

definition overlapsWindow :: "int \<Rightarrow> int \<Rightarrow> TimeWindow \<Rightarrow> Overlap" where
  "overlapsWindow startM endM w =
     (let oStart = max startM (startMin w);
          oEnd = min endM (endMin w)
      in \<lparr> overlaps = oStart < oEnd, overlapStart = oStart, overlapEnd = oEnd \<rparr>)"

definition average :: "StorySample list \<Rightarrow> (StorySample \<Rightarrow> real) \<Rightarrow> real" where
  "average samples picker =
     (if length samples = 0 then 0
      else foldl (\<lambda>sum sample. sum + picker sample) 0 samples / real (length samples))"

definition buildReason :: "ReasonCode \<Rightarrow> string list \<Rightarrow> Confidence option \<Rightarrow> ExplainReason" where
  "buildReason c ev conf =
     (let base = reasonCatalog c
      in \<lparr> BaseReason.title = BaseReason.title base,
           confidence = (case conf of Some k \<Rightarrow> k | None \<Rightarrow> confidence base),
           code = c,
           evidence = take 3 ev \<rparr>)"

definition findFirstSample :: "StorySample list \<Rightarrow> (StorySample \<Rightarrow> bool) \<Rightarrow> int \<Rightarrow> int" where
  "findFirstSample samples predicate fallbackMin =
     (case find predicate samples of Some match \<Rightarrow> ts match | None \<Rightarrow> fallbackMin)"

text \<open>
  The loop of \<^verbatim>\<open>hasConsecutiveGridExport\<close> with its two variables \<open>run\<close> and \<open>runStart\<close>
  (\<open>None\<close> is \<^verbatim>\<open>null\<close>).
\<close>

fun exportRunLoop :: "nat \<Rightarrow> int option \<Rightarrow> nat \<Rightarrow> StorySample list \<Rightarrow> int option" where
  "exportRunLoop run runStart minRunLength [] = None"
| "exportRunLoop run runStart minRunLength (sample # rest) =
     (if gridKw sample < - 0.6 then
        (let run' = run + 1;
             runStart' = (case runStart of None \<Rightarrow> Some (ts sample) | Some t \<Rightarrow> Some t)
         in if run' \<ge> minRunLength then runStart'
            else exportRunLoop run' runStart' minRunLength rest)
      else exportRunLoop 0 None minRunLength rest)"

definition hasConsecutiveGridExport :: "StorySample list \<Rightarrow> nat \<Rightarrow> int option" where
  "hasConsecutiveGridExport samples minRunLength = exportRunLoop 0 None minRunLength samples"

text \<open>The two \<^verbatim>\<open>while\<close> loops of \<^verbatim>\<open>ensureUniqueTimestamp\<close>.\<close>

function probeForward :: "int set \<Rightarrow> int \<Rightarrow> int \<Rightarrow> int" where
  "probeForward usedTs upperBound t =
     (if t \<in> usedTs \<and> t \<le> upperBound then probeForward usedTs upperBound (t + 5) else t)"
  by pat_completeness auto
termination
  by (relation "measure (\<lambda>(usedTs, upperBound, t). nat (upperBound - t + 1))") auto

function probeBackward :: "int set \<Rightarrow> int \<Rightarrow> int \<Rightarrow> int" where
  "probeBackward usedTs startM t =
     (if t \<in> usedTs \<and> t \<ge> startM then probeBackward usedTs startM (t - 5) else t)"
  by pat_completeness auto
termination
  by (relation "measure (\<lambda>(usedTs, startM, t). nat (t - startM + 1))") auto

declare probeForward.simps [simp del]
declare probeBackward.simps [simp del]

definition ensureUniqueTimestamp :: "int \<Rightarrow> int set \<Rightarrow> int \<Rightarrow> int \<Rightarrow> int" where
  "ensureUniqueTimestamp proposedTs usedTs startM endM =
     (let upperBound = max startM (endM - 5);
          t0 = clamp proposedTs startM upperBound;
          t1 = probeForward usedTs upperBound t0;
          t2 = probeBackward usedTs startM t1
      in clamp t2 startM upperBound)"

definition getWindowSamples :: "StorySample list \<Rightarrow> int \<Rightarrow> int \<Rightarrow> StorySample list" where
  "getWindowSamples samples startM endM =
     (let safeStart = min startM endM;
          safeEnd = max startM endM
      in filter (\<lambda>sample. ts sample \<ge> safeStart \<and> ts sample < safeEnd) samples)"

text \<open>
  \<^verbatim>\<open>summarizeWindow\<close>. The four totals and the two extremes are accumulated by one
  \<^verbatim>\<open>for\<close> loop in the source; they do not depend on each other and are folded one by one
  here. The extremes start at \<open>\<plusminus>\<infinity>\<close>, so after the first sample they are its SOC.
\<close>

fun summarizeWindow :: "StorySample list \<Rightarrow> ExplainContext \<Rightarrow> ExplainSummary" where
  "summarizeWindow [] context =
     \<lparr> startSoc = 0, endSoc = 0,
       totalGridImportKwhApprox = 0, totalGridExportKwhApprox = 0,
       totalBatteryChargeKwhApprox = 0, totalBatteryDischargeKwhApprox = 0,
       minSoc = 0, maxSoc = 0 \<rparr>"
| "summarizeWindow (first # rest) context =
     (let samples = first # rest;
          gridImport = foldl (\<lambda>acc sample. acc + max (gridKw sample) 0 * STEP_HOURS) 0 samples;
          gridExport = foldl (\<lambda>acc sample. acc + max (- gridKw sample) 0 * STEP_HOURS) 0 samples;
          batteryCharge =
            foldl (\<lambda>acc sample. acc + max (batteryKw sample) 0 * STEP_HOURS) 0 samples;
          batteryDischarge =
            foldl (\<lambda>acc sample. acc + max (- batteryKw sample) 0 * STEP_HOURS) 0 samples;
          minSocV = foldl (\<lambda>acc sample. min acc (socPct sample)) (socPct first) rest;
          maxSocV = foldl (\<lambda>acc sample. max acc (socPct sample)) (socPct first) rest
      in \<lparr> startSoc = round_dec (socPct first) 1,
           endSoc = round_dec (socPct (last samples)) 1,
           totalGridImportKwhApprox = round_dec gridImport 2,
           totalGridExportKwhApprox = round_dec gridExport 2,
           totalBatteryChargeKwhApprox = round_dec batteryCharge 2,
           totalBatteryDischargeKwhApprox = round_dec batteryDischarge 2,
           minSoc = round_dec minSocV 1,
           maxSoc = round_dec maxSocV 1 \<rparr>)"

text \<open>
  The detectors of \<^verbatim>\<open>buildExplainTimeline\<close>, in the order of the source. Each is one
  \<^verbatim>\<open>if\<close> block that pushes at most one event onto \<^verbatim>\<open>rawEvents\<close>; here each returns the
  events it pushes.
\<close>

definition peakRateEvents :: "ExplainContext \<Rightarrow> real \<Rightarrow> Overlap \<Rightarrow> RawEvent list" where
  "peakRateEvents context avgBatteryKw peakOverlap =
     (if overlaps peakOverlap then
        [\<lparr> EventBody.title = ''Peak rate period'',
           type = Rate,
           whatHappened = ''Peak period started. System prioritized reducing grid usage.'',
           reasons =
             [buildReason TBC_PEAK_AVOIDANCE
                [''Mode: '' @ mode context @ ''.'',
                 ''Selected window overlaps peak period (''
                   @ formatWindow (startMin (peakWindow context)) (endMin (peakWindow context))
                   @ '').'',
                 ''Battery average power was '' @ numToString (round_dec avgBatteryKw 2)
                   @ '' kW in this selection.'']
                None],
           proposedTsMin = overlapStart peakOverlap \<rparr>]
      else [])"

definition stormWatchEvents :: "ExplainContext \<Rightarrow> ExplainSummary \<Rightarrow> Overlap \<Rightarrow> RawEvent list" where
  "stormWatchEvents context summary stormOverlap =
     (if overlaps stormOverlap \<and> stormWatchEnabled context then
        [\<lparr> EventBody.title = ''Storm Watch'',
           type = Storm,
           whatHappened =
             ''Storm Watch engaged. Powerwall increased charge to improve backup readiness.'',
           reasons =
             [buildReason STORM_WATCH_PRECHARGE
                [''Storm Watch is enabled in site settings.'',
                 ''Window overlaps Storm Watch (''
                   @ formatWindow (startMin (stormWatchWindow context))
                       (endMin (stormWatchWindow context))
                   @ '').'',
                 ''SOC moved '' @ numToString (round_dec (startSoc summary) 1) @ ''% ''
                   @ rightArrow @ '' '' @ numToString (round_dec (endSoc summary) 1)
                   @ ''% in selection.'']
                None],
           proposedTsMin = overlapStart stormOverlap \<rparr>]
      else [])"

definition chargingReasons ::
  "ExplainContext \<Rightarrow> ExplainSummary \<Rightarrow> real \<Rightarrow> real \<Rightarrow> real \<Rightarrow> Overlap \<Rightarrow> ExplainReason list" where
  "chargingReasons context summary avgBatteryKw avgSolarKw avgHomeKw stormOverlap =
     (let r1 =
            (if overlaps stormOverlap \<and> stormWatchEnabled context then
               [buildReason STORM_WATCH_PRECHARGE
                  [''Charging occurred while Storm Watch interval was active.'',
                   ''Average battery power was +'' @ numToString (round_dec avgBatteryKw 2)
                     @ '' kW.'']
                  None]
             else []);
          r2 =
            (if avgSolarKw > avgHomeKw + 0.3 then
               [buildReason SOLAR_SURPLUS_CHARGE
                  [''Average solar '' @ numToString (round_dec avgSolarKw 2)
                     @ '' kW exceeded home load '' @ numToString (round_dec avgHomeKw 2)
                     @ '' kW.'',
                   ''Battery charged about ''
                     @ numToString (totalBatteryChargeKwhApprox summary)
                     @ '' kWh in this window.'']
                  (Some (if overlaps stormOverlap then Medium else High))]
             else []);
          rs = r1 @ r2
      in if length rs = 0 then
           rs @ [buildReason HOLDING_CHARGE
                   [''Battery stayed net charging at +''
                      @ numToString (round_dec avgBatteryKw 2) @ '' kW.'',
                    ''SOC increased from '' @ numToString (startSoc summary) @ ''% to ''
                      @ numToString (endSoc summary) @ ''% during the selected period.'']
                   None]
         else rs)"

definition batteryChargingEvents ::
  "StorySample list \<Rightarrow> ExplainContext \<Rightarrow> int \<Rightarrow> ExplainSummary \<Rightarrow> real \<Rightarrow> real \<Rightarrow> real
     \<Rightarrow> Overlap \<Rightarrow> RawEvent list" where
  "batteryChargingEvents windowSamples context startM summary avgBatteryKw avgSolarKw avgHomeKw
       stormOverlap =
     (if avgBatteryKw > 0.4 then
        (let chargeStartTs =
               findFirstSample windowSamples (\<lambda>sample. batteryKw sample > 0.4) startM
         in [\<lparr> EventBody.title = ''Battery charging'',
                type = Battery,
                whatHappened = ''Powerwall was mostly charging during the selected period.'',
                reasons =
                  chargingReasons context summary avgBatteryKw avgSolarKw avgHomeKw stormOverlap,
                proposedTsMin = chargeStartTs \<rparr>])
      else [])"

definition dischargingReasons ::
  "ExplainContext \<Rightarrow> ExplainSummary \<Rightarrow> real \<Rightarrow> Overlap \<Rightarrow> ExplainReason list" where
  "dischargingReasons context summary avgBatteryKw peakOverlap =
     (let r1 =
            (if overlaps peakOverlap then
               [buildReason TBC_PEAK_AVOIDANCE
                  [''Selection overlaps peak period (''
                     @ formatWindow (startMin (peakWindow context)) (endMin (peakWindow context))
                     @ '').'',
                   ''Battery average power was '' @ numToString (round_dec avgBatteryKw 2)
                     @ '' kW (discharging).'']
                  None]
             else []);
          r2 =
            (if minSoc summary \<le> backupReservePct context + 2 then
               [buildReason BACKUP_RESERVE_PROTECTION
                  [''Backup reserve is '' @ numToString (backupReservePct context) @ ''%.'',
                   ''SOC approached reserve. Minimum observed ''
                     @ numToString (minSoc summary) @ ''%.'']
                  (Some Medium)]
             else []);
          rs = r1 @ r2
      in if length rs = 0 then
           rs @ [buildReason HOLDING_CHARGE
                   [''Battery delivered about ''
                      @ numToString (totalBatteryDischargeKwhApprox summary)
                      @ '' kWh in this window.'',
                    ''SOC declined '' @ numToString (startSoc summary) @ ''% '' @ rightArrow
                      @ '' '' @ numToString (endSoc summary) @ ''%.'']
                   None]
         else rs)"

definition batteryDischargingEvents ::
  "StorySample list \<Rightarrow> ExplainContext \<Rightarrow> int \<Rightarrow> ExplainSummary \<Rightarrow> real \<Rightarrow> Overlap
     \<Rightarrow> RawEvent list" where
  "batteryDischargingEvents windowSamples context startM summary avgBatteryKw peakOverlap =
     (if avgBatteryKw < - 0.4 then
        (let dischargeStartTs =
               findFirstSample windowSamples (\<lambda>sample. batteryKw sample < - 0.4) startM
         in [\<lparr> EventBody.title = ''Battery discharging'',
                type = Battery,
                whatHappened = ''Powerwall supplied home demand to reduce grid dependence.'',
                reasons = dischargingReasons context summary avgBatteryKw peakOverlap,
                proposedTsMin = dischargeStartTs \<rparr>])
      else [])"

definition exportEvents ::
  "StorySample list \<Rightarrow> ExplainSummary \<Rightarrow> real \<Rightarrow> real \<Rightarrow> RawEvent list" where
  "exportEvents windowSamples summary avgSolarKw avgHomeKw =
     (case hasConsecutiveGridExport windowSamples 3 of
        Some exportRunStart \<Rightarrow>
          [\<lparr> EventBody.title = ''Exporting to grid'',
             type = Grid,
             whatHappened =
               ''Solar production exceeded site demand and excess energy was exported.'',
             reasons =
               [buildReason EXPORTING_SURPLUS
                  [''At least 15 minutes of consecutive grid export was observed.'',
                   ''Average solar '' @ numToString (round_dec avgSolarKw 2) @ '' kW vs home ''
                     @ numToString (round_dec avgHomeKw 2) @ '' kW.'',
                   ''Approx export in selection: ''
                     @ numToString (totalGridExportKwhApprox summary) @ '' kWh.'']
                  (Some (if totalGridExportKwhApprox summary > 0.5 then High else Medium))],
             proposedTsMin = exportRunStart \<rparr>]
      | None \<Rightarrow> [])"

definition holdingEvents ::
  "StorySample list \<Rightarrow> int \<Rightarrow> ExplainSummary \<Rightarrow> real \<Rightarrow> real \<Rightarrow> real \<Rightarrow> RawEvent list" where
  "holdingEvents windowSamples startM summary avgBatteryKw avgSolarKw avgHomeKw =
     (if \<bar>avgBatteryKw\<bar> < 0.25 \<and> avgSolarKw > avgHomeKw + 0.25 then
        (let holdTs = findFirstSample windowSamples (\<lambda>sample. True) startM
         in [\<lparr> EventBody.title = ''Holding battery level'',
                type = Solar,
                whatHappened =
                  ''Battery power stayed near neutral while solar carried most of the load.'',
                reasons =
                  [buildReason HOLDING_CHARGE
                     [''Average battery power stayed near ''
                        @ numToString (round_dec avgBatteryKw 2) @ '' kW.'',
                      ''SOC remained within '' @ numToString (minSoc summary) @ ''% to ''
                        @ numToString (maxSoc summary) @ ''% during this selection.'',
                      ''Solar remained above home load on average (''
                        @ numToString (round_dec avgSolarKw 2) @ '' vs ''
                        @ numToString (round_dec avgHomeKw 2) @ '' kW).'']
                     (Some Medium)],
                proposedTsMin = holdTs \<rparr>])
      else [])"

definition stableOperationEvent :: "int \<Rightarrow> int \<Rightarrow> ExplainSummary \<Rightarrow> real \<Rightarrow> RawEvent" where
  "stableOperationEvent startM endM summary avgBatteryKw =
     \<lparr> EventBody.title = ''Stable operation'',
       type = Info,
       whatHappened = ''No major state transitions were detected in this window.'',
       reasons =
         [buildReason HOLDING_CHARGE
            [''Window: '' @ formatWindow startM endM @ ''.'',
             ''SOC changed '' @ numToString (startSoc summary) @ ''% '' @ rightArrow @ '' ''
               @ numToString (endSoc summary) @ ''%.'',
             ''Average battery power '' @ numToString (round_dec avgBatteryKw 2) @ '' kW.'']
            None],
       proposedTsMin = startM \<rparr>"

text \<open>The events pushed by the six detectors, before the fallback.\<close>

definition detectedEvents ::
  "StorySample list \<Rightarrow> ExplainContext \<Rightarrow> int \<Rightarrow> int \<Rightarrow> RawEvent list" where
  "detectedEvents windowSamples context startM endM =
     (let summary = summarizeWindow windowSamples context;
          avgBatteryKw = average windowSamples batteryKw;
          avgSolarKw = average windowSamples solarKw;
          avgHomeKw = average windowSamples homeKw;
          peakOverlap = overlapsWindow startM endM (peakWindow context);
          stormOverlap = overlapsWindow startM endM (stormWatchWindow context)
      in peakRateEvents context avgBatteryKw peakOverlap
         @ stormWatchEvents context summary stormOverlap
         @ batteryChargingEvents windowSamples context startM summary avgBatteryKw avgSolarKw
             avgHomeKw stormOverlap
         @ batteryDischargingEvents windowSamples context startM summary avgBatteryKw peakOverlap
         @ exportEvents windowSamples summary avgSolarKw avgHomeKw
         @ holdingEvents windowSamples startM summary avgBatteryKw avgSolarKw avgHomeKw)"

text \<open>\<^verbatim>\<open>rawEvents\<close> as it stands when the timestamps are assigned.\<close>

definition buildRawEvents ::
  "StorySample list \<Rightarrow> ExplainContext \<Rightarrow> int \<Rightarrow> int \<Rightarrow> RawEvent list" where
  "buildRawEvents windowSamples context startM endM =
     (let detected = detectedEvents windowSamples context startM endM
      in if length detected = 0 then
           detected @ [stableOperationEvent startM endM (summarizeWindow windowSamples context)
                         (average windowSamples batteryKw)]
         else detected)"

text \<open>
  The first \<^verbatim>\<open>map\<close>: its callback reads and extends the set \<^verbatim>\<open>usedTimestamps\<close>, which is
  threaded through the recursion together with the index of the event.
\<close>

fun assignTimestamps :: "int set \<Rightarrow> nat \<Rightarrow> int \<Rightarrow> int \<Rightarrow> RawEvent list \<Rightarrow> ExplainEvent list" where
  "assignTimestamps usedTimestamps index startM endM [] = []"
| "assignTimestamps usedTimestamps index startM endM (event # rest) =
     (let t = ensureUniqueTimestamp (proposedTsMin event) usedTimestamps startM endM
      in \<lparr> EventBody.title = EventBody.title event,
           type = type event,
           whatHappened = whatHappened event,
           reasons = reasons event,
           id_str = intToString t @ ''-'' @ intToString (int index),
           tsMin = t \<rparr>
         # assignTimestamps (insert t usedTimestamps) (index + 1) startM endM rest)"

text \<open>The callback of the final \<^verbatim>\<open>map\<close>.\<close>

definition finalizeEvent :: "nat \<Rightarrow> ExplainEvent \<Rightarrow> ExplainEvent" where
  "finalizeEvent index event =
     event
       \<lparr> id_str := eventTypeString (type event) @ ''-'' @ intToString (tsMin event) @ ''-''
                    @ intToString (int index),
         whatHappened := whatHappened event,
         reasons :=
           map (\<lambda>reason.
                  reason \<lparr> evidence :=
                    take 3 (evidence reason
                            @ [''Event time: '' @ minutesToLabel (tsMin event) @ ''.'']) \<rparr>)
             (reasons event) \<rparr>"

definition buildExplainTimeline ::
  "StorySample list \<Rightarrow> ExplainContext \<Rightarrow> int \<Rightarrow> int \<Rightarrow> ExplainEvent list" where
  "buildExplainTimeline samplesAll context startM endM =
     (let windowSamples = getWindowSamples samplesAll startM endM
      in if length windowSamples = 0 then []
         else
           let rawEvents = buildRawEvents windowSamples context startM endM;
               normalizedEvents =
                 take MAX_EVENTS (sort_key tsMin (assignTimestamps {} 0 startM endM rawEvents))
           in map (\<lambda>(index, event). finalizeEvent index event) (enumerate 0 normalizedEvents))"

section \<open>The replay simulator\<close>

definition MAX_CHARGE_KW :: real where "MAX_CHARGE_KW = 5"
definition MAX_DISCHARGE_KW :: real where "MAX_DISCHARGE_KW = 5"
definition STORM_TARGET_SOC_PCT :: real where "STORM_TARGET_SOC_PCT = 85"

text \<open>
  \<^verbatim>\<open>ReplayOverrides\<close>: every field is optional. The modes are the strings
  \<^verbatim>\<open>"Time-Based Control"\<close> and \<^verbatim>\<open>"Self-Powered"\<close>.
\<close>

record ReplayOverrides =
  backupReservePct_opt :: "real option"
  mode_opt :: "string option"
  peakStartMin_opt :: "int option"

record Deltas =
  endSocPct :: real
  gridImportKwh :: real
  batteryDischargeKwh :: real

record ReplayResult =
  actual :: ReplaySummary
  replay :: ReplaySummary
  deltas :: Deltas
  modeUsed :: string
  reserveUsed :: real

record RunningTotals =
  gridImport :: real
  gridExport :: real
  batteryCharge :: real
  batteryDischarge :: real

record EnergyBounds =
  maxChargeKw :: real
  maxDischargeKw :: real

record EnergyStep =
  nextSocPct :: real
  gridKw_step :: real
  batteryKw_step :: real

definition computeEnergyBounds :: "real \<Rightarrow> real \<Rightarrow> EnergyBounds" where
  "computeEnergyBounds soc reservePct =
     (let maxChargeKwh = ((100 - soc) / 100) * BATTERY_CAPACITY_KWH;
          maxDischargeKwh = ((soc - reservePct) / 100) * BATTERY_CAPACITY_KWH
      in \<lparr> maxChargeKw = max 0 (maxChargeKwh / STEP_HOURS),
           maxDischargeKw = max 0 (maxDischargeKwh / STEP_HOURS) \<rparr>)"

definition applyEnergyStep :: "real \<Rightarrow> real \<Rightarrow> real \<Rightarrow> real \<Rightarrow> real \<Rightarrow> EnergyStep" where
  "applyEnergyStep battery solar home soc reservePct =
     (let boundedBatteryKw = clamp battery (- MAX_DISCHARGE_KW) MAX_CHARGE_KW;
          deltaSocPct = ((boundedBatteryKw * STEP_HOURS) / BATTERY_CAPACITY_KWH) * 100;
          nextSoc = clamp (soc + deltaSocPct) reservePct 100;
          grid = home - solar + boundedBatteryKw
      in \<lparr> nextSocPct = nextSoc, gridKw_step = grid, batteryKw_step = boundedBatteryKw \<rparr>)"

definition accumulateTotals :: "RunningTotals \<Rightarrow> real \<Rightarrow> real \<Rightarrow> RunningTotals" where
  "accumulateTotals totals battery grid =
     \<lparr> gridImport = gridImport totals + max grid 0 * STEP_HOURS,
       gridExport = gridExport totals + max (- grid) 0 * STEP_HOURS,
       batteryCharge = batteryCharge totals + max battery 0 * STEP_HOURS,
       batteryDischarge = batteryDischarge totals + max (- battery) 0 * STEP_HOURS \<rparr>"

definition simulateSelfPoweredStep :: "StorySample \<Rightarrow> real \<Rightarrow> real \<Rightarrow> EnergyStep" where
  "simulateSelfPoweredStep sample soc reservePct =
     (let netSolarKw = solarKw sample - homeKw sample;
          bounds = computeEnergyBounds soc reservePct;
          battery =
            (if netSolarKw > 0 \<and> soc < 100 then
               min netSolarKw (min MAX_CHARGE_KW (maxChargeKw bounds))
             else if netSolarKw < 0 \<and> soc > reservePct then
               (let deficitKw = \<bar>netSolarKw\<bar>
                in - min deficitKw (min MAX_DISCHARGE_KW (maxDischargeKw bounds)))
             else 0)
      in applyEnergyStep battery (solarKw sample) (homeKw sample) soc reservePct)"

definition simulateTimeBasedStep ::
  "StorySample \<Rightarrow> ExplainContext \<Rightarrow> real \<Rightarrow> real \<Rightarrow> int \<Rightarrow> EnergyStep" where
  "simulateTimeBasedStep sample context soc reservePct peakStartMin =
     (let inPeak = (ts sample \<ge> peakStartMin \<and> ts sample < endMin (peakWindow context));
          inStorm = (stormWatchEnabled context
                     \<and> ts sample \<ge> startMin (stormWatchWindow context)
                     \<and> ts sample < endMin (stormWatchWindow context));
          bounds = computeEnergyBounds soc reservePct;
          deficitKw = max 0 (homeKw sample - solarKw sample)
      in
      if inPeak \<and> soc > reservePct then
        applyEnergyStep
          (- min (deficitKw + 0.35) (min MAX_DISCHARGE_KW (maxDischargeKw bounds)))
          (solarKw sample) (homeKw sample) soc reservePct
      else if inStorm \<and> soc < max reservePct STORM_TARGET_SOC_PCT then
        (let desiredChargeKw = max 0 (deficitKw + 2.2)
         in applyEnergyStep
              (min desiredChargeKw (min MAX_CHARGE_KW (maxChargeKw bounds)))
              (solarKw sample) (homeKw sample) soc reservePct)
      else simulateSelfPoweredStep sample soc reservePct)"

definition finalizeSummary :: "real \<Rightarrow> real \<Rightarrow> RunningTotals \<Rightarrow> ReplaySummary" where
  "finalizeSummary startSocV endSocV totals =
     \<lparr> startSoc = round_dec startSocV 1,
       endSoc = round_dec endSocV 1,
       totalGridImportKwhApprox = round_dec (gridImport totals) 2,
       totalGridExportKwhApprox = round_dec (gridExport totals) 2,
       totalBatteryChargeKwhApprox = round_dec (batteryCharge totals) 2,
       totalBatteryDischargeKwhApprox = round_dec (batteryDischarge totals) 2 \<rparr>"

text \<open>The \<^verbatim>\<open>for\<close> loop of \<^verbatim>\<open>replayWindow\<close> over the window, with its state \<open>(socPct, totals)\<close>.\<close>

fun replayLoop ::
  "string \<Rightarrow> ExplainContext \<Rightarrow> real \<Rightarrow> int \<Rightarrow> real \<times> RunningTotals \<Rightarrow> StorySample list
     \<Rightarrow> real \<times> RunningTotals" where
  "replayLoop modeU context reserveU peakStartMin (soc, totals) [] = (soc, totals)"
| "replayLoop modeU context reserveU peakStartMin (soc, totals) (sample # rest) =
     (let step =
            (if modeU = ''Self-Powered'' then simulateSelfPoweredStep sample soc reserveU
             else simulateTimeBasedStep sample context soc reserveU peakStartMin)
      in replayLoop modeU context reserveU peakStartMin
           (nextSocPct step, accumulateTotals totals (batteryKw_step step) (gridKw_step step))
           rest)"

definition replayWindow ::
  "StorySample list \<Rightarrow> ExplainContext \<Rightarrow> int \<Rightarrow> int \<Rightarrow> ReplayOverrides \<Rightarrow> ReplayResult" where
  "replayWindow samplesAll context startM endM overrides =
     (let windowSamples = getWindowSamples samplesAll startM endM;
          actualSummary = summarizeWindow windowSamples context;
          modeU = (case mode_opt overrides of Some m \<Rightarrow> m | None \<Rightarrow> mode context);
          reserveU = (case backupReservePct_opt overrides of
                        Some r \<Rightarrow> r | None \<Rightarrow> backupReservePct context);
          peakStartMin = (case peakStartMin_opt overrides of
                            Some p \<Rightarrow> p | None \<Rightarrow> startMin (peakWindow context))
      in
      case windowSamples of
        [] \<Rightarrow>
          (let empty = \<lparr> startSoc = 0, endSoc = 0,
                          totalGridImportKwhApprox = 0, totalGridExportKwhApprox = 0,
                          totalBatteryChargeKwhApprox = 0, totalBatteryDischargeKwhApprox = 0 \<rparr>
           in \<lparr> actual = empty, replay = empty,
                deltas = \<lparr> endSocPct = 0, gridImportKwh = 0, batteryDischargeKwh = 0 \<rparr>,
                modeUsed = modeU, reserveUsed = reserveU \<rparr>)
      | first # _ \<Rightarrow>
          (let replayStartSoc = socPct first;
               final = replayLoop modeU context reserveU peakStartMin
                         (replayStartSoc,
                          \<lparr> gridImport = 0, gridExport = 0, batteryCharge = 0,
                            batteryDischarge = 0 \<rparr>)
                         windowSamples;
               replaySummary = finalizeSummary replayStartSoc (fst final) (snd final)
           in \<lparr> actual =
                  \<lparr> startSoc = startSoc actualSummary,
                    endSoc = endSoc actualSummary,
                    totalGridImportKwhApprox = totalGridImportKwhApprox actualSummary,
                    totalGridExportKwhApprox = totalGridExportKwhApprox actualSummary,
                    totalBatteryChargeKwhApprox = totalBatteryChargeKwhApprox actualSummary,
                    totalBatteryDischargeKwhApprox =
                      totalBatteryDischargeKwhApprox actualSummary \<rparr>,
                replay = replaySummary,
                deltas =
                  \<lparr> endSocPct = round_dec (endSoc replaySummary - endSoc actualSummary) 1,
                    gridImportKwh =
                      round_dec (totalGridImportKwhApprox replaySummary
                                 - totalGridImportKwhApprox actualSummary) 2,
                    batteryDischargeKwh =
                      round_dec (totalBatteryDischargeKwhApprox replaySummary
                                 - totalBatteryDischargeKwhApprox actualSummary) 2 \<rparr>,
                modeUsed = modeU, reserveUsed = reserveU \<rparr>))"

text \<open>
  The overrides that repeat the ambient context: its mode, its reserve and the start of
  its peak window.
\<close>

definition ambientOverrides :: "ExplainContext \<Rightarrow> ReplayOverrides" where
  "ambientOverrides context =
     \<lparr> backupReservePct_opt = Some (backupReservePct context),
       mode_opt = Some (mode context),
       peakStartMin_opt = Some (startMin (peakWindow context)) \<rparr>"

section \<open>Notions used in the statements\<close>

text \<open>
  The window filter as the specification words it: both bounds snapped to the 5-minute
  grid, clamped to the day, put in order, and the samples filtered by the half-open range.
  Snapping a minute to the grid is taking the multiple of 5 nearest to it (an integer is
  never halfway between two of them); it is written here without reference to the code.
\<close>

definition nearestGridMinute :: "int \<Rightarrow> int" where
  "nearestGridMinute m = 5 * ((m + 2) div 5)"

definition snappedBounds :: "int \<Rightarrow> int \<Rightarrow> int \<times> int" where
  "snappedBounds startM endM =
     (let start' = clamp (nearestGridMinute startM) 0 1440;
          end' = clamp (nearestGridMinute endM) 0 1440
      in (min start' end', max start' end'))"

definition samplesInWindow_spec :: "StorySample list \<Rightarrow> int \<Rightarrow> int \<Rightarrow> StorySample list" where
  "samplesInWindow_spec samples startM endM =
     (case snappedBounds startM endM of
        (lo, hi) \<Rightarrow> filter (\<lambda>sample. lo \<le> ts sample \<and> ts sample < hi) samples)"

text \<open>
  The evidence line that the final \<^verbatim>\<open>map\<close> of \<^verbatim>\<open>buildExplainTimeline\<close> appends, what that
  \<^verbatim>\<open>map\<close> does to one reason, the timestamps that the first \<^verbatim>\<open>map\<close> assigns to a list of
  anchors, and the fields an event keeps from the raw event it comes from.
\<close>

definition eventTimeLine :: "int \<Rightarrow> string" where
  "eventTimeLine t = ''Event time: '' @ minutesToLabel t @ ''.''"

definition withTimeLine :: "int \<Rightarrow> ExplainReason \<Rightarrow> ExplainReason" where
  "withTimeLine t reason = reason \<lparr> evidence := take 3 (evidence reason @ [eventTimeLine t]) \<rparr>"

fun assignedTimestamps :: "int set \<Rightarrow> int \<Rightarrow> int \<Rightarrow> int list \<Rightarrow> int list" where
  "assignedTimestamps usedTimestamps startM endM [] = []"
| "assignedTimestamps usedTimestamps startM endM (p # ps) =
     (let t = ensureUniqueTimestamp p usedTimestamps startM endM
      in t # assignedTimestamps (insert t usedTimestamps) startM endM ps)"

definition sameBody :: "RawEvent \<Rightarrow> ExplainEvent \<Rightarrow> bool" where
  "sameBody r ev \<longleftrightarrow>
     EventBody.title ev = EventBody.title r \<and> type ev = type r
     \<and> whatHappened ev = whatHappened r \<and> reasons ev = reasons r"

text \<open>
  A run of three consecutive exporting samples starting at index \<open>i\<close> of the window, the
  test of the export detector on one sample, and the start of the first such run computed
  by plain recursion over the list.
\<close>

definition exportRunAt :: "StorySample list \<Rightarrow> nat \<Rightarrow> bool" where
  "exportRunAt ws i \<longleftrightarrow> i + 3 \<le> length ws \<and> (\<forall>j < 3. gridKw (ws ! (i + j)) < - 0.6)"

definition exporting :: "StorySample \<Rightarrow> bool" where
  "exporting sample \<longleftrightarrow> gridKw sample < - 0.6"

fun firstExportRun :: "StorySample list \<Rightarrow> int option" where
  "firstExportRun (a # b # c # rest) =
     (if exporting a \<and> exporting b \<and> exporting c then Some (ts a)
      else firstExportRun (b # c # rest))"
| "firstExportRun _ = None"


text \<open>The overrides that leave every parameter to the context.\<close>

definition noOverrides :: ReplayOverrides where
  "noOverrides = \<lparr> backupReservePct_opt = None, mode_opt = None, peakStartMin_opt = None \<rparr>"

text \<open>Sample lists used as concrete inputs.\<close>

definition stableDemo :: "StorySample list" where
  "stableDemo = [\<lparr> ts = 0, solarKw = 0, homeKw = 1, batteryKw = 0, gridKw = 1, socPct = 50 \<rparr>]"



definition stormDemo :: "StorySample list" where
  "stormDemo =
     [\<lparr> ts = 1205, solarKw = 0, homeKw = 2, batteryKw = 0, gridKw = 2, socPct = 31 \<rparr>,
      \<lparr> ts = 1210, solarKw = 0, homeKw = 2, batteryKw = 0, gridKw = 2, socPct = 31 \<rparr>,
      \<lparr> ts = 1215, solarKw = 0, homeKw = 2, batteryKw = 0, gridKw = 2, socPct = 31 \<rparr>,
      \<lparr> ts = 1220, solarKw = 0, homeKw = 2, batteryKw = 0, gridKw = 2, socPct = 31 \<rparr>,
      \<lparr> ts = 1225, solarKw = 0, homeKw = 2, batteryKw = 0, gridKw = 2, socPct = 31 \<rparr>,
      \<lparr> ts = 1230, solarKw = 0, homeKw = 2, batteryKw = 2.8, gridKw = 4.8, socPct = 32.7 \<rparr>]"

section \<open>Rounding facts\<close>

lemma round_dec_error: "\<bar>round_dec v d - v\<bar> \<le> 1 / (2 * 10 ^ d)"
proof -
  have fl: "\<bar>of_int \<lfloor>y + 1 / 2\<rfloor> - y\<bar> \<le> 1 / 2" for y :: real
    by linarith
  have pos: "(0::real) < 10 ^ d" by simp
  show ?thesis
  proof (cases "v < 0")
    case True
    have "\<bar>round_dec v d - v\<bar> = \<bar>of_int \<lfloor>(- v) * 10 ^ d + 1 / 2\<rfloor> - (- v) * 10 ^ d\<bar> / 10 ^ d"
      using True pos by (simp add: round_dec_def field_simps abs_minus_commute)
    also have "\<dots> \<le> (1 / 2) / 10 ^ d"
      by (rule divide_right_mono [OF fl]) simp
    finally show ?thesis by simp
  next
    case False
    have "\<bar>round_dec v d - v\<bar> = \<bar>of_int \<lfloor>v * 10 ^ d + 1 / 2\<rfloor> - v * 10 ^ d\<bar> / 10 ^ d"
      using False pos by (simp add: round_dec_def field_simps)
    also have "\<dots> \<le> (1 / 2) / 10 ^ d"
      by (rule divide_right_mono [OF fl]) simp
    finally show ?thesis by simp
  qed
qed

lemma round_dec_soc_bounds:
  assumes "30 \<le> v" "v \<le> 100"
  shows "30 \<le> round_dec v 1 \<and> round_dec v 1 \<le> 100"
proof -
  have "300 \<le> \<lfloor>v * 10 + 1 / 2\<rfloor>" using assms by linarith
  moreover have "\<lfloor>v * 10 + 1 / 2\<rfloor> \<le> 1000" using assms by linarith
  ultimately show ?thesis using assms by (simp add: round_dec_def field_simps)
qed

section \<open>The generated day\<close>

lemma storyDayStep_grid:
  "gridKw (fst (storyDayStep soc index)) =
     round_dec (homeKw (fst (storyDayStep soc index)) - solarKw (fst (storyDayStep soc index))
                + batteryKw (fst (storyDayStep soc index))) 2"
  unfolding storyDayStep_def Let_def by simp

lemma storyDayStep_socPct:
  "socPct (fst (storyDayStep soc index)) = round_dec (snd (storyDayStep soc index)) 1"
  unfolding storyDayStep_def Let_def by simp

lemma storyDayStep_next_soc:
  "backupReservePct storyDayContext \<le> snd (storyDayStep soc index)
   \<and> snd (storyDayStep soc index) \<le> 100"
  unfolding storyDayStep_def Let_def by (simp add: clamp_def storyDayContext_def)

lemma storyDayStep_balance:
  assumes "storyDayStep soc index = (s, soc')"
  shows "\<bar>gridKw s - (homeKw s - solarKw s + batteryKw s)\<bar> \<le> 0.01"
proof -
  have "gridKw s = round_dec (homeKw s - solarKw s + batteryKw s) 2"
    using storyDayStep_grid [of soc index] assms by simp
  then show ?thesis using round_dec_error [of "homeKw s - solarKw s + batteryKw s" 2] by simp
qed

lemma storyDayStep_soc:
  assumes "storyDayStep soc index = (s, soc')"
  shows "backupReservePct storyDayContext \<le> soc' \<and> soc' \<le> 100 \<and> socPct s = round_dec soc' 1"
  using storyDayStep_socPct [of soc index] storyDayStep_next_soc [of soc index] assms by simp

text \<open>A property of every pushed sample holds of every element of the generated list.\<close>

lemma storyDayLoop_all:
  assumes "\<And>soc index s soc'. storyDayStep soc index = (s, soc') \<Longrightarrow> P s"
  shows "\<forall>s \<in> set (storyDayLoop soc is). P s"
proof (induction "is" arbitrary: soc)
  case Nil
  show ?case by simp
next
  case (Cons index rest)
  obtain s soc' where st: "storyDayStep soc index = (s, soc')"
    by (cases "storyDayStep soc index")
  from assms [OF st] Cons.IH [of soc'] st show ?case by simp
qed

lemma length_storyDayLoop: "length (storyDayLoop soc is) = length is"
  by (induction "is" arbitrary: soc) (auto split: prod.splits)

lemma length_buildStoryDaySamples: "length buildStoryDaySamples = 288"
  by (simp add: buildStoryDaySamples_def length_storyDayLoop SAMPLE_COUNT_def
      MINUTES_PER_DAY_def SAMPLE_STEP_MINUTES_def)

text \<open>
  Claim C1. In every sample of the generated day the stored grid power equals
  \<open>homeKw - solarKw + batteryKw\<close> of the same sample to within 0.01 kW: it is that sum,
  taken after the three components were rounded, rounded to two decimals.
\<close>

theorem generated_power_balance:
  "\<forall>s \<in> set buildStoryDaySamples.
     \<bar>gridKw s - (homeKw s - solarKw s + batteryKw s)\<bar> \<le> 0.01"
  unfolding buildStoryDaySamples_def
  by (rule storyDayLoop_all) (rule storyDayStep_balance)

theorem generated_power_balance_witness:
  "buildStoryDaySamples ! 0 \<in> set buildStoryDaySamples \<and>
   \<bar>gridKw (buildStoryDaySamples ! 0)
      - (homeKw (buildStoryDaySamples ! 0) - solarKw (buildStoryDaySamples ! 0)
         + batteryKw (buildStoryDaySamples ! 0))\<bar> \<le> 0.01"
proof -
  have mem: "buildStoryDaySamples ! 0 \<in> set buildStoryDaySamples"
    by (rule nth_mem) (simp add: length_buildStoryDaySamples)
  show ?thesis using mem generated_power_balance by blast
qed

text \<open>
  Claim C2. In every sample of the generated day the stored state of charge lies between
  the backup reserve of the context, which is 30, and 100: each step clamps the integrated
  value into that interval and then rounds it to one decimal.
\<close>

theorem generated_soc_bounds:
  "backupReservePct storyDayContext = 30 \<and>
   (\<forall>s \<in> set buildStoryDaySamples.
      backupReservePct storyDayContext \<le> socPct s \<and> socPct s \<le> 100)"
proof
  show "backupReservePct storyDayContext = 30" by (simp add: storyDayContext_def)
  show "\<forall>s \<in> set buildStoryDaySamples.
      backupReservePct storyDayContext \<le> socPct s \<and> socPct s \<le> 100"
    unfolding buildStoryDaySamples_def
  proof (rule storyDayLoop_all)
    fix soc index s soc'
    assume "storyDayStep soc index = (s, soc')"
    from storyDayStep_soc [OF this] round_dec_soc_bounds [of soc']
    show "backupReservePct storyDayContext \<le> socPct s \<and> socPct s \<le> 100"
      by (simp add: storyDayContext_def)
  qed
qed

theorem generated_soc_bounds_witness:
  "buildStoryDaySamples ! 287 \<in> set buildStoryDaySamples \<and>
   30 \<le> socPct (buildStoryDaySamples ! 287) \<and> socPct (buildStoryDaySamples ! 287) \<le> 100"
proof -
  have mem: "buildStoryDaySamples ! 287 \<in> set buildStoryDaySamples"
    by (rule nth_mem) (simp add: length_buildStoryDaySamples)
  show ?thesis using mem generated_soc_bounds by auto
qed

section \<open>Window filters and the summary\<close>

lemma clampToStep_multiple: "5 dvd m \<Longrightarrow> clampToStep m 5 = m"
proof -
  assume "5 dvd m"
  then obtain k where k: "m = 5 * k" by (auto simp: dvd_def)
  have "\<lfloor>real_of_int (5 * k) / 5 + 1 / 2\<rfloor> = k" by (simp add: floor_eq_iff)
  then show ?thesis by (simp add: clampToStep_def k)
qed

text \<open>
  The snapping of the code is the nearest multiple of 5, and that is the only multiple of 5
  within two minutes.
\<close>

lemma nearestGridMinute_nearest:
  "(5 dvd g \<and> \<bar>g - m\<bar> \<le> 2) \<longleftrightarrow> g = nearestGridMinute m"
  unfolding nearestGridMinute_def by presburger

lemma clampToStep_nearest: "clampToStep m 5 = nearestGridMinute m"
proof -
  define q where "q = (m + 2) div 5"
  define r where "r = (m + 2) mod 5"
  have m: "m = 5 * q + r - 2" and r: "0 \<le> r" "r < 5"
    by (simp_all add: q_def r_def)
  have "real_of_int m / 5 + 1 / 2 = real_of_int q + (2 * real_of_int r + 1) / 10"
    by (simp add: m field_simps)
  moreover have "0 \<le> (2 * real_of_int r + 1) / 10" "(2 * real_of_int r + 1) / 10 < 1"
    using r by simp_all
  ultimately have "\<lfloor>real_of_int m / 5 + 1 / 2\<rfloor> = q"
    by (simp add: floor_eq_iff)
  then show ?thesis by (simp add: clampToStep_def nearestGridMinute_def q_def)
qed

lemma nearestGridMinute_multiple: "5 dvd m \<Longrightarrow> nearestGridMinute m = m"
  using nearestGridMinute_nearest [of m m] by simp

lemma snappedBounds_grid:
  "5 dvd fst (snappedBounds startM endM) \<and> 5 dvd snd (snappedBounds startM endM)
   \<and> 0 \<le> fst (snappedBounds startM endM)
   \<and> fst (snappedBounds startM endM) \<le> snd (snappedBounds startM endM)
   \<and> snd (snappedBounds startM endM) \<le> 1440"
proof -
  have g: "5 dvd clamp (nearestGridMinute m) 0 1440" for m
    using nearestGridMinute_nearest [of "nearestGridMinute m" m]
    by (auto simp: clamp_def min_def max_def)
  have b: "0 \<le> clamp v 0 1440 \<and> clamp v 0 1440 \<le> 1440" for v :: int
    by (simp add: clamp_def)
  show ?thesis
    using g [of startM] g [of endM] b [of "nearestGridMinute startM"]
      b [of "nearestGridMinute endM"]
    by (simp add: snappedBounds_def Let_def min_def max_def)
qed

text \<open>
  Claim C7. The summary of an empty sample list has every field equal to zero: the start,
  end, minimum and maximum SOC and the four energy totals. The function is total, so no input
  makes it fail.
\<close>

theorem summarizeWindow_empty:
  "summarizeWindow [] context =
     \<lparr> startSoc = 0, endSoc = 0,
       totalGridImportKwhApprox = 0, totalGridExportKwhApprox = 0,
       totalBatteryChargeKwhApprox = 0, totalBatteryDischargeKwhApprox = 0,
       minSoc = 0, maxSoc = 0 \<rparr>"
  by simp

text \<open>
  Claim C9. The window filter that takes the sample list is idempotent, returns a
  subsequence of its input (the order of the samples is kept), and gives the same list when
  its two bounds are swapped. The filter over the generated day likewise returns a
  subsequence of the day and is symmetric in its bounds.
\<close>

theorem getWindowSamples_idempotent_ordered_symmetric:
  "getWindowSamples (getWindowSamples samples startM endM) startM endM
     = getWindowSamples samples startM endM
   \<and> subseq (getWindowSamples samples startM endM) samples
   \<and> getWindowSamples samples endM startM = getWindowSamples samples startM endM
   \<and> subseq (getSamplesInWindow startM endM) storyDaySamples
   \<and> getSamplesInWindow endM startM = getSamplesInWindow startM endM"
proof (intro conjI)
  show "getWindowSamples (getWindowSamples samples startM endM) startM endM
     = getWindowSamples samples startM endM"
    by (auto simp: getWindowSamples_def Let_def intro!: filter_cong)
  show "subseq (getWindowSamples samples startM endM) samples"
    by (simp add: getWindowSamples_def Let_def)
  show "getWindowSamples samples endM startM = getWindowSamples samples startM endM"
    by (simp add: getWindowSamples_def Let_def min.commute max.commute)
  show "subseq (getSamplesInWindow startM endM) storyDaySamples"
    by (simp add: getSamplesInWindow_def Let_def)
  show "getSamplesInWindow endM startM = getSamplesInWindow startM endM"
    by (simp add: getSamplesInWindow_def Let_def min.commute max.commute)
qed

text \<open>
  Claim C8, as stated, fails for the filter that takes the sample list: it neither snaps nor
  clamps its bounds. With the bounds 0 and 2 a sample at minute 0 is kept, while the snapped
  bounds are both 0 and select nothing.
\<close>

theorem getWindowSamples_not_snapped:
  "getWindowSamples
     [\<lparr> ts = 0, solarKw = 0, homeKw = 1, batteryKw = 0, gridKw = 1, socPct = 50 \<rparr>] 0 2
   \<noteq> samplesInWindow_spec
     [\<lparr> ts = 0, solarKw = 0, homeKw = 1, batteryKw = 0, gridKw = 1, socPct = 50 \<rparr>] 0 2"
  by (simp add: getWindowSamples_def samplesInWindow_spec_def snappedBounds_def
      nearestGridMinute_def clamp_def)

text \<open>
  Claim C8, amended. The filter over the generated day is a half-open range filter whose
  bounds are snapped to the 5-minute grid and clamped before filtering: for all integer
  bounds it returns the samples of the day between the two bounds after each is replaced by
  the nearest multiple of 5, clamped to \<open>[0, 1440]\<close>, and the two are put in order. Both
  resulting bounds are multiples of 5 in \<open>[0, 1440]\<close>. The filter that takes the sample list
  only orders its bounds; it equals filtering by the snapped, clamped and ordered bounds when
  both bounds are multiples of 5 and every timestamp lies in \<open>[0, 1440)\<close>.
\<close>

theorem window_filters_snapped:
  "getSamplesInWindow startM endM = samplesInWindow_spec storyDaySamples startM endM
   \<and> (\<forall>m g. (5 dvd g \<and> \<bar>g - m\<bar> \<le> 2) \<longleftrightarrow> g = nearestGridMinute m)
   \<and> 5 dvd fst (snappedBounds startM endM) \<and> 5 dvd snd (snappedBounds startM endM)
   \<and> 0 \<le> fst (snappedBounds startM endM)
   \<and> fst (snappedBounds startM endM) \<le> snd (snappedBounds startM endM)
   \<and> snd (snappedBounds startM endM) \<le> 1440
   \<and> (5 dvd startM \<and> 5 dvd endM \<and> (\<forall>s \<in> set samples. 0 \<le> ts s \<and> ts s < 1440)
        \<longrightarrow> getWindowSamples samples startM endM = samplesInWindow_spec samples startM endM)"
proof -
  have day: "getSamplesInWindow startM endM = samplesInWindow_spec storyDaySamples startM endM"
    by (simp add: getSamplesInWindow_def samplesInWindow_spec_def snappedBounds_def Let_def
        SAMPLE_STEP_MINUTES_def MINUTES_PER_DAY_def clampToStep_nearest)
  have near: "\<forall>m g. (5 dvd g \<and> \<bar>g - m\<bar> \<le> 2) \<longleftrightarrow> g = nearestGridMinute m"
    using nearestGridMinute_nearest by blast
  have list: "getWindowSamples samples startM endM = samplesInWindow_spec samples startM endM"
    if a: "5 dvd startM \<and> 5 dvd endM \<and> (\<forall>s \<in> set samples. 0 \<le> ts s \<and> ts s < 1440)"
  proof -
    from a have snap: "nearestGridMinute startM = startM" "nearestGridMinute endM = endM"
      by (simp_all add: nearestGridMinute_multiple)
    have "filter (\<lambda>sample. min startM endM \<le> ts sample \<and> ts sample < max startM endM) samples
        = filter (\<lambda>sample. min (clamp startM 0 1440) (clamp endM 0 1440) \<le> ts sample
                    \<and> ts sample < max (clamp startM 0 1440) (clamp endM 0 1440)) samples"
      using a by (intro filter_cong refl) (auto simp: clamp_def min_def max_def)
    then show ?thesis
      by (simp add: getWindowSamples_def samplesInWindow_spec_def snappedBounds_def Let_def snap)
  qed
  from day near snappedBounds_grid [of startM endM] list show ?thesis by blast
qed

text \<open>
  The bounds 3 and 13 are snapped to 5 and 15, by the specification and by the code; at the
  aligned bounds 5 and 15 the two filters agree on a sample at minute 10.
\<close>

theorem window_filters_snapped_witness:
  "(5::int) dvd 5 \<and> (5::int) dvd 15
   \<and> snappedBounds 3 13 = (5, 15)
   \<and> clampToStep 3 5 = 5 \<and> clampToStep 13 5 = 15
   \<and> getWindowSamples
        [\<lparr> ts = 10, solarKw = 0, homeKw = 1, batteryKw = 0, gridKw = 1, socPct = 50 \<rparr>] 5 15
      = samplesInWindow_spec
        [\<lparr> ts = 10, solarKw = 0, homeKw = 1, batteryKw = 0, gridKw = 1, socPct = 50 \<rparr>] 5 15"
proof -
  have "snappedBounds 3 13 = (5, 15)"
    by (simp add: snappedBounds_def nearestGridMinute_def clamp_def)
  moreover have "clampToStep 3 5 = 5" "clampToStep 13 5 = 15"
    by (simp_all add: clampToStep_def)
  ultimately show ?thesis
    using window_filters_snapped
      [of 5 15 "[\<lparr> ts = 10, solarKw = 0, homeKw = 1, batteryKw = 0, gridKw = 1, socPct = 50 \<rparr>]"]
    by simp
qed

section \<open>From raw events to the timeline\<close>

lemma assignTimestamps_tsMin:
  "map tsMin (assignTimestamps u i s e evs) = assignedTimestamps u s e (map proposedTsMin evs)"
  by (induction evs arbitrary: u i) (simp_all add: Let_def)

lemma length_assignTimestamps: "length (assignTimestamps u i s e evs) = length evs"
  by (induction evs arbitrary: u i) (simp_all add: Let_def)


lemma finalizeEvent_fields:
  "EventBody.title (finalizeEvent i ev) = EventBody.title ev"
  "type (finalizeEvent i ev) = type ev"
  "tsMin (finalizeEvent i ev) = tsMin ev"
  "reasons (finalizeEvent i ev) = map (withTimeLine (tsMin ev)) (reasons ev)"
  by (simp_all add: finalizeEvent_def withTimeLine_def eventTimeLine_def)

lemma length_detectors:
  "length (peakRateEvents c a p) \<le> 1"
  "length (stormWatchEvents c sm p) \<le> 1"
  "length (batteryChargingEvents ws c s sm a1 a2 a3 p) \<le> 1"
  "length (batteryDischargingEvents ws c s sm a1 p) \<le> 1"
  "length (exportEvents ws sm a2 a3) \<le> 1"
  "length (holdingEvents ws s sm a1 a2 a3) \<le> 1"
  by (simp_all add: peakRateEvents_def stormWatchEvents_def batteryChargingEvents_def
      batteryDischargingEvents_def exportEvents_def holdingEvents_def Let_def
      split: option.splits)

lemma length_detectedEvents: "length (detectedEvents ws c s e) \<le> 6"
proof -
  note l = length_detectors
  show ?thesis
    unfolding detectedEvents_def Let_def length_append
    using l(1) [of c "average ws batteryKw" "overlapsWindow s e (peakWindow c)"]
      l(2) [of c "summarizeWindow ws c" "overlapsWindow s e (stormWatchWindow c)"]
      l(3) [of ws c s "summarizeWindow ws c" "average ws batteryKw" "average ws solarKw"
             "average ws homeKw" "overlapsWindow s e (stormWatchWindow c)"]
      l(4) [of ws c s "summarizeWindow ws c" "average ws batteryKw"
             "overlapsWindow s e (peakWindow c)"]
      l(5) [of ws "summarizeWindow ws c" "average ws solarKw" "average ws homeKw"]
      l(6) [of ws s "summarizeWindow ws c" "average ws batteryKw" "average ws solarKw"
             "average ws homeKw"]
    by linarith
qed

lemma buildRawEvents_length:
  "buildRawEvents ws c s e \<noteq> [] \<and> length (buildRawEvents ws c s e) \<le> MAX_EVENTS"
  using length_detectedEvents [of ws c s e]
  by (auto simp: buildRawEvents_def Let_def MAX_EVENTS_def)

lemma buildExplainTimeline_nonempty_window:
  assumes "getWindowSamples samplesAll s e \<noteq> []"
  shows "buildExplainTimeline samplesAll c s e =
           map (\<lambda>(index, event). finalizeEvent index event)
             (enumerate 0 (sort_key tsMin
                (assignTimestamps {} 0 s e (buildRawEvents (getWindowSamples samplesAll s e) c s e))))"
proof -
  have "length (sort_key tsMin
      (assignTimestamps {} 0 s e (buildRawEvents (getWindowSamples samplesAll s e) c s e)))
      \<le> MAX_EVENTS"
    using buildRawEvents_length by (simp add: length_assignTimestamps)
  then show ?thesis using assms by (simp add: buildExplainTimeline_def Let_def)
qed

lemma buildExplainTimeline_empty_window:
  "getWindowSamples samplesAll s e = [] \<Longrightarrow> buildExplainTimeline samplesAll c s e = []"
  by (simp add: buildExplainTimeline_def Let_def)



lemma assignTimestamps_origin:
  "ev \<in> set (assignTimestamps u i s e evs) \<Longrightarrow>
     \<exists>r \<in> set evs. sameBody r ev
        \<and> (\<exists>u'. tsMin ev = ensureUniqueTimestamp (proposedTsMin r) u' s e)"
proof (induction evs arbitrary: u i)
  case Nil
  then show ?case by simp
next
  case (Cons r rest)
  let ?t = "ensureUniqueTimestamp (proposedTsMin r) u s e"
  from Cons.prems consider
      (here) "sameBody r ev \<and> tsMin ev = ?t"
    | (later) "ev \<in> set (assignTimestamps (insert ?t u) (i + 1) s e rest)"
    by (auto simp: Let_def sameBody_def)
  then show ?case
  proof cases
    case here
    then show ?thesis by auto
  next
    case later
    from Cons.IH [OF later] show ?thesis by auto
  qed
qed

lemma timeline_origin:
  assumes "ev \<in> set (buildExplainTimeline samplesAll c s e)"
  shows "\<exists>r \<in> set (buildRawEvents (getWindowSamples samplesAll s e) c s e).
           EventBody.title ev = EventBody.title r \<and> type ev = type r
           \<and> reasons ev = map (withTimeLine (tsMin ev)) (reasons r)
           \<and> (\<exists>u. tsMin ev = ensureUniqueTimestamp (proposedTsMin r) u s e)"
proof -
  have ne: "getWindowSamples samplesAll s e \<noteq> []"
    using assms buildExplainTimeline_empty_window by fastforce
  let ?raw = "buildRawEvents (getWindowSamples samplesAll s e) c s e"
  let ?sorted = "sort_key tsMin (assignTimestamps {} 0 s e ?raw)"
  from assms obtain i ev0 where ev: "ev = finalizeEvent i ev0"
    and en: "(i, ev0) \<in> set (enumerate 0 ?sorted)"
    unfolding buildExplainTimeline_nonempty_window [OF ne] by auto
  from en have "i < length ?sorted" "?sorted ! i = ev0"
    by (simp_all add: in_set_enumerate_eq)
  then have "ev0 \<in> set ?sorted"
    using nth_mem by blast
  then have mem: "ev0 \<in> set (assignTimestamps {} 0 s e ?raw)" by simp
  from assignTimestamps_origin [OF mem] obtain r u where "r \<in> set ?raw" "sameBody r ev0"
    "tsMin ev0 = ensureUniqueTimestamp (proposedTsMin r) u s e"
    by blast
  then show ?thesis
    using ev by (auto simp: finalizeEvent_fields sameBody_def)
qed

lemma withTimeLine_fields:
  "code (withTimeLine t r) = code r"
  "confidence (withTimeLine t r) = confidence r"
  "BaseReason.title (withTimeLine t r) = BaseReason.title r"
  "evidence (withTimeLine t r) = take 3 (evidence r @ [eventTimeLine t])"
  by (simp_all add: withTimeLine_def)

lemma buildReason_fields:
  "code (buildReason c ev conf) = c"
  "confidence (buildReason c ev (Some k)) = k"
  "evidence (buildReason c ev conf) = take 3 ev"
  by (simp_all add: buildReason_def Let_def)






lemma probeForward_unused: "t \<notin> u \<Longrightarrow> probeForward u ub t = t"
  by (subst probeForward.simps) simp

lemma probeBackward_unused: "t \<notin> u \<Longrightarrow> probeBackward u s t = t"
  by (subst probeBackward.simps) simp

lemma clamp_idem: "clamp (clamp p lo hi) lo hi = clamp p lo hi"
  by (auto simp: clamp_def min_def max_def)

lemma ensureUniqueTimestamp_unused:
  "clamp p s (max s (e - 5)) \<notin> u \<Longrightarrow>
     ensureUniqueTimestamp p u s e = clamp p s (max s (e - 5))"
  by (simp add: ensureUniqueTimestamp_def Let_def probeForward_unused probeBackward_unused
      clamp_idem)

lemma window_nonempty_timeline:
  "buildExplainTimeline samplesAll c s e = [] \<longleftrightarrow> getWindowSamples samplesAll s e = []"
proof (cases "getWindowSamples samplesAll s e = []")
  case True
  then show ?thesis by (simp add: buildExplainTimeline_empty_window)
next
  case False
  have "length (buildExplainTimeline samplesAll c s e)
      = length (buildRawEvents (getWindowSamples samplesAll s e) c s e)"
    unfolding buildExplainTimeline_nonempty_window [OF False]
    by (simp add: length_assignTimestamps)
  moreover have "buildRawEvents (getWindowSamples samplesAll s e) c s e \<noteq> []"
    using buildRawEvents_length by blast
  ultimately have "buildExplainTimeline samplesAll c s e \<noteq> []"
    by (metis length_0_conv)
  with False show ?thesis by simp
qed



section \<open>The export detector\<close>

lemma firstExportRun_hit:
  "exporting a \<Longrightarrow> exporting b \<Longrightarrow> exporting c \<Longrightarrow>
     firstExportRun (a # b # c # rest) = Some (ts a)"
  by simp

lemma firstExportRun_miss:
  "\<not> (exporting a \<and> exporting b \<and> exporting c) \<Longrightarrow>
     firstExportRun (a # b # c # rest) = firstExportRun (b # c # rest)"
  by auto

lemma firstExportRun_skip:
  "\<not> exporting x \<Longrightarrow> firstExportRun (x # rest) = firstExportRun rest"
proof (induction rest arbitrary: x rule: firstExportRun.induct)
  case (1 a b c rest)
  show ?case using "1.prems" by (simp add: firstExportRun_miss del: firstExportRun.simps)
qed simp_all

lemma firstExportRun_skip2:
  "\<not> exporting y \<Longrightarrow> firstExportRun (x # y # rest) = firstExportRun rest"
proof (cases rest)
  case Nil
  then show ?thesis by simp
next
  case (Cons z r)
  assume "\<not> exporting y"
  then show ?thesis
    using Cons firstExportRun_skip [of y rest] by (simp add: firstExportRun_miss del: firstExportRun.simps)
qed

lemma exportRunLoop_Cons:
  "exportRunLoop run rs 3 (s # rest) =
     (if exporting s then
        (if 2 \<le> run then (case rs of None \<Rightarrow> Some (ts s) | Some t \<Rightarrow> Some t)
         else exportRunLoop (Suc run) (case rs of None \<Rightarrow> Some (ts s) | Some t \<Rightarrow> Some t) 3 rest)
      else exportRunLoop 0 None 3 rest)"
  by (simp add: exporting_def Let_def)


lemma exportRunLoop_firstExportRun: "exportRunLoop 0 None 3 ws = firstExportRun ws"
proof (induction ws rule: length_induct)
  case (1 ws)
  note IH = "1.IH" [rule_format]
  note [simp del] = exportRunLoop.simps(2) firstExportRun.simps(1)
  show ?case
  proof (cases ws)
    case Nil
    then show ?thesis by simp
  next
    case ws: (Cons a r1)
    show ?thesis
    proof (cases "exporting a")
      case False
      then show ?thesis
        using IH [of r1] ws by (simp add: firstExportRun_skip exportRunLoop_Cons)
    next
      case ea: True
      show ?thesis
      proof (cases r1)
        case Nil
        then show ?thesis using ws ea by (simp add: exportRunLoop_Cons)
      next
        case r1: (Cons b r2)
        show ?thesis
        proof (cases "exporting b")
          case False
          have "exportRunLoop 0 None 3 ws = exportRunLoop 0 None 3 r2"
            using ws r1 ea False by (simp add: exportRunLoop_Cons)
          also have "\<dots> = firstExportRun r2" using IH [of r2] ws r1 by simp
          also have "\<dots> = firstExportRun ws"
            using False ws r1 by (simp add: firstExportRun_skip2)
          finally show ?thesis .
        next
          case eb: True
          show ?thesis
          proof (cases r2)
            case Nil
            then show ?thesis using ws r1 ea eb by (simp add: exportRunLoop_Cons)
          next
            case r2: (Cons c r3)
            show ?thesis
            proof (cases "exporting c")
              case True
              then show ?thesis
                using ws r1 r2 ea eb by (simp add: exportRunLoop_Cons firstExportRun_hit)
            next
              case False
              have "exportRunLoop 0 None 3 ws = exportRunLoop 0 None 3 r3"
                using ws r1 r2 ea eb False by (simp add: exportRunLoop_Cons)
              also have "\<dots> = firstExportRun r3" using IH [of r3] ws r1 r2 by simp
              also have "\<dots> = firstExportRun (b # c # r3)"
                using False by (simp add: firstExportRun_skip2)
              also have "\<dots> = firstExportRun ws"
                using False ws r1 r2 by (simp add: firstExportRun_miss)
              finally show ?thesis .
            qed
          qed
        qed
      qed
    qed
  qed
qed

lemma exportRunAt_exporting:
  "exportRunAt ws i \<longleftrightarrow>
     i + 3 \<le> length ws \<and> exporting (ws ! i) \<and> exporting (ws ! Suc i) \<and> exporting (ws ! Suc (Suc i))"
proof -
  have three: "(\<forall>j<3. P j) \<longleftrightarrow> P 0 \<and> P (Suc 0) \<and> P (Suc (Suc 0))" for P :: "nat \<Rightarrow> bool"
    by (auto simp: less_Suc_eq numeral_3_eq_3)
  show ?thesis
    unfolding exportRunAt_def three exporting_def by simp
qed

lemma exportRunAt_Cons_0:
  "exportRunAt (a # b # c # rest) 0 \<longleftrightarrow> exporting a \<and> exporting b \<and> exporting c"
  by (simp add: exportRunAt_exporting)

lemma exportRunAt_Cons_Suc: "exportRunAt (a # xs) (Suc i) \<longleftrightarrow> exportRunAt xs i"
  by (auto simp: exportRunAt_exporting)




lemma firstExportRun_Some:
  "firstExportRun ws = Some t \<Longrightarrow>
     \<exists>i. exportRunAt ws i \<and> (\<forall>k < i. \<not> exportRunAt ws k) \<and> t = ts (ws ! i)"
proof (induction ws rule: firstExportRun.induct)
  case (1 a b c rest)
  show ?case
  proof (cases "exporting a \<and> exporting b \<and> exporting c")
    case True
    then have "exportRunAt (a # b # c # rest) 0" by (simp add: exportRunAt_Cons_0)
    moreover have "t = ts a" using True "1.prems" by simp
    ultimately show ?thesis by (intro exI [of _ 0]) simp
  next
    case False
    then have n0: "\<not> exportRunAt (a # b # c # rest) 0" by (simp add: exportRunAt_Cons_0)
    have "firstExportRun (a # b # c # rest) = firstExportRun (b # c # rest)"
      using False by (rule firstExportRun_miss)
    with "1.prems" have "firstExportRun (b # c # rest) = Some t" by simp
    from "1.IH" [OF False this] obtain i where i: "exportRunAt (b # c # rest) i"
      "\<forall>k < i. \<not> exportRunAt (b # c # rest) k" "t = ts ((b # c # rest) ! i)"
      by blast
    have "exportRunAt (a # b # c # rest) (Suc i)" using i(1) by (simp add: exportRunAt_Cons_Suc)
    moreover have "\<forall>k < Suc i. \<not> exportRunAt (a # b # c # rest) k"
    proof (intro allI impI)
      fix k assume "k < Suc i"
      then show "\<not> exportRunAt (a # b # c # rest) k"
        using n0 i(2) by (cases k) (auto simp: exportRunAt_Cons_Suc)
    qed
    moreover have "t = ts ((a # b # c # rest) ! Suc i)" using i(3) by simp
    ultimately show ?thesis by blast
  qed
qed simp_all


lemma hasConsecutiveGridExport_Some:
  "hasConsecutiveGridExport ws 3 = Some t \<Longrightarrow>
     \<exists>i. exportRunAt ws i \<and> (\<forall>k < i. \<not> exportRunAt ws k) \<and> t = ts (ws ! i)"
  by (simp add: hasConsecutiveGridExport_def exportRunLoop_firstExportRun firstExportRun_Some)


section \<open>Properties of the timeline\<close>

lemma stableDemo_window: "getWindowSamples stableDemo 0 5 = stableDemo"
  by (simp add: getWindowSamples_def stableDemo_def)

lemma average_single: "average [x] f = f x"
  by (simp add: average_def)

lemma stableDemo_detected: "detectedEvents stableDemo storyDayContext 0 5 = []"
  by (simp add: detectedEvents_def stableDemo_def Let_def average_single
      peakRateEvents_def stormWatchEvents_def batteryChargingEvents_def
      batteryDischargingEvents_def exportEvents_def holdingEvents_def
      overlapsWindow_def storyDayContext_def hasConsecutiveGridExport_def)

















section \<open>Evidence lines\<close>

lemma reasons_capped:
  "r \<in> set (peakRateEvents c a1 p) \<Longrightarrow> rr \<in> set (reasons r) \<Longrightarrow> length (evidence rr) \<le> 3"
  "r \<in> set (stormWatchEvents c sm p) \<Longrightarrow> rr \<in> set (reasons r) \<Longrightarrow> length (evidence rr) \<le> 3"
  "rr \<in> set (chargingReasons c sm a1 a2 a3 p) \<Longrightarrow> length (evidence rr) \<le> 3"
  "rr \<in> set (dischargingReasons c sm a1 p) \<Longrightarrow> length (evidence rr) \<le> 3"
  "r \<in> set (exportEvents ws sm a2 a3) \<Longrightarrow> rr \<in> set (reasons r) \<Longrightarrow> length (evidence rr) \<le> 3"
  "r \<in> set (holdingEvents ws s sm a1 a2 a3) \<Longrightarrow> rr \<in> set (reasons r) \<Longrightarrow> length (evidence rr) \<le> 3"
  "rr \<in> set (reasons (stableOperationEvent s e sm a1)) \<Longrightarrow> length (evidence rr) \<le> 3"
  by (auto simp: peakRateEvents_def stormWatchEvents_def chargingReasons_def
      dischargingReasons_def exportEvents_def holdingEvents_def stableOperationEvent_def
      buildReason_fields Let_def split: if_splits option.splits)

lemma battery_reasons_capped:
  "r \<in> set (batteryChargingEvents ws c s sm a1 a2 a3 p) \<Longrightarrow> rr \<in> set (reasons r)
     \<Longrightarrow> length (evidence rr) \<le> 3"
  "r \<in> set (batteryDischargingEvents ws c s sm a1 p) \<Longrightarrow> rr \<in> set (reasons r)
     \<Longrightarrow> length (evidence rr) \<le> 3"
  using reasons_capped(3) [of rr c sm a1 a2 a3 p] reasons_capped(4) [of rr c sm a1 p]
  by (auto simp: batteryChargingEvents_def batteryDischargingEvents_def Let_def
      split: if_splits)

lemma raw_reasons_capped:
  assumes "r \<in> set (buildRawEvents ws c s e)" "rr \<in> set (reasons r)"
  shows "length (evidence rr) \<le> 3"
proof -
  from assms(1) consider
      (det) "r \<in> set (detectedEvents ws c s e)"
    | (stable) "r = stableOperationEvent s e (summarizeWindow ws c) (average ws batteryKw)"
    by (auto simp: buildRawEvents_def Let_def split: if_splits)
  then show ?thesis
  proof cases
    case det
    then have "r \<in> set (peakRateEvents c (average ws batteryKw) (overlapsWindow s e (peakWindow c)))
      \<or> r \<in> set (stormWatchEvents c (summarizeWindow ws c) (overlapsWindow s e (stormWatchWindow c)))
      \<or> r \<in> set (batteryChargingEvents ws c s (summarizeWindow ws c) (average ws batteryKw)
                      (average ws solarKw) (average ws homeKw) (overlapsWindow s e (stormWatchWindow c)))
      \<or> r \<in> set (batteryDischargingEvents ws c s (summarizeWindow ws c) (average ws batteryKw)
                      (overlapsWindow s e (peakWindow c)))
      \<or> r \<in> set (exportEvents ws (summarizeWindow ws c) (average ws solarKw) (average ws homeKw))
      \<or> r \<in> set (holdingEvents ws s (summarizeWindow ws c) (average ws batteryKw)
                      (average ws solarKw) (average ws homeKw))"
      by (simp add: detectedEvents_def Let_def)
    then show ?thesis
      using assms(2) by (meson reasons_capped(1,2,5,6) battery_reasons_capped)
  next
    case stable
    then show ?thesis using assms(2) reasons_capped(7) by blast
  qed
qed

lemma withTimeLine_evidence:
  "length (evidence rr) \<le> 3 \<Longrightarrow>
     evidence (withTimeLine t rr)
       = (if length (evidence rr) < 3 then evidence rr @ [eventTimeLine t] else evidence rr)"
  by (simp add: withTimeLine_fields)

lemma stableDemo_labels:
  "formatWindow 0 5 = ''12:00'' @ enDash @ ''12:05 AM''"
  "minutesToLabel 0 = ''12:00 AM''"
  "intToString 0 = ''0''"
  by code_simp+

lemma stableDemo_numbers: "numToString 50 = ''50''" "numToString 0 = ''0''"
  by (simp_all add: numToString_def Let_def digitsOf.simps)

lemma stableDemo_summary:
  "summarizeWindow stableDemo c =
     \<lparr> startSoc = 50, endSoc = 50,
       totalGridImportKwhApprox = 0.08, totalGridExportKwhApprox = 0,
       totalBatteryChargeKwhApprox = 0, totalBatteryDischargeKwhApprox = 0,
       minSoc = 50, maxSoc = 50 \<rparr>"
  by (simp add: stableDemo_def round_dec_def STEP_HOURS_def)

lemma stableDemo_average: "average stableDemo batteryKw = 0"
  by (simp add: stableDemo_def average_single)

lemma stableDemo_raw:
  "buildRawEvents stableDemo storyDayContext 0 5 =
     [stableOperationEvent 0 5 (summarizeWindow stableDemo storyDayContext)
        (average stableDemo batteryKw)]"
  by (simp add: buildRawEvents_def stableDemo_detected)

lemma stableDemo_timeline:
  "buildExplainTimeline stableDemo storyDayContext 0 5 =
     [\<lparr> EventBody.title = ''Stable operation'',
        type = Info,
        whatHappened = ''No major state transitions were detected in this window.'',
        reasons =
          [\<lparr> BaseReason.title = ''Holding battery level'', confidence = Low,
              code = HOLDING_CHARGE,
              evidence =
                [''Window: 12:00'' @ enDash @ ''12:05 AM.'',
                 ''SOC changed 50% '' @ rightArrow @ '' 50%.'',
                 ''Average battery power 0 kW.''] \<rparr>],
        id_str = ''info-0-0'',
        tsMin = 0 \<rparr>]"
proof -
  have ne: "getWindowSamples stableDemo 0 5 \<noteq> []"
    by (simp add: stableDemo_window) (simp add: stableDemo_def)
  have u: "ensureUniqueTimestamp 0 {} 0 5 = 0"
    by (simp add: ensureUniqueTimestamp_unused clamp_def)
  show ?thesis
    unfolding buildExplainTimeline_nonempty_window [OF ne] stableDemo_window stableDemo_raw
    by (simp add: stableOperationEvent_def stableDemo_summary stableDemo_average
        stableDemo_labels stableDemo_numbers u finalizeEvent_def buildReason_def
        round_dec_def Let_def)
qed

text \<open>
  Claim C6, as stated, fails where a reason already has three evidence lines: the time
  label is appended and the list is cut to three again, so the label is dropped and the last
  slot keeps its line. The fallback event of a one-sample window shows it.
\<close>

theorem time_line_dropped_when_full:
  "map evidence (reasons (hd (buildExplainTimeline stableDemo storyDayContext 0 5)))
     = [[''Window: 12:00'' @ enDash @ ''12:05 AM.'',
         ''SOC changed 50% '' @ rightArrow @ '' 50%.'',
         ''Average battery power 0 kW.'']]
   \<and> eventTimeLine (tsMin (hd (buildExplainTimeline stableDemo storyDayContext 0 5)))
       = ''Event time: 12:00 AM.''
   \<and> last (evidence (hd (reasons (hd (buildExplainTimeline stableDemo storyDayContext 0 5)))))
       \<noteq> eventTimeLine (tsMin (hd (buildExplainTimeline stableDemo storyDayContext 0 5)))"
  by (simp add: stableDemo_timeline eventTimeLine_def stableDemo_labels)


text \<open>
  Claim C6, amended. In every returned event each reason has at most three evidence lines.
  The event comes from a raw event of the same title, and its evidence lists are those of
  the raw event with the time label of the event appended where the list had fewer than three
  lines, and unchanged where it had three.
\<close>

theorem evidence_capped_time_line:
  "\<forall>ev \<in> set (buildExplainTimeline samplesAll context startM endM).
     (\<forall>reason \<in> set (reasons ev). length (evidence reason) \<le> 3)
     \<and> (\<exists>raw \<in> set (buildRawEvents (getWindowSamples samplesAll startM endM) context
                        startM endM).
           EventBody.title ev = EventBody.title raw
           \<and> map evidence (reasons ev)
               = map (\<lambda>r. if length (evidence r) < 3
                          then evidence r @ [eventTimeLine (tsMin ev)] else evidence r)
                   (reasons raw))"
proof
  fix ev
  assume "ev \<in> set (buildExplainTimeline samplesAll context startM endM)"
  from timeline_origin [OF this] obtain raw where raw:
    "raw \<in> set (buildRawEvents (getWindowSamples samplesAll startM endM) context startM endM)"
    "EventBody.title ev = EventBody.title raw"
    "reasons ev = map (withTimeLine (tsMin ev)) (reasons raw)"
    by blast
  have cap: "\<forall>reason \<in> set (reasons ev). length (evidence reason) \<le> 3"
    by (auto simp: raw(3) withTimeLine_fields)
  have "map evidence (reasons ev)
      = map (\<lambda>r. if length (evidence r) < 3
                 then evidence r @ [eventTimeLine (tsMin ev)] else evidence r) (reasons raw)"
    unfolding raw(3) map_map comp_def
    by (rule map_cong [OF refl]) (simp add: withTimeLine_evidence raw_reasons_capped [OF raw(1)])
  with cap raw show
    "(\<forall>reason \<in> set (reasons ev). length (evidence reason) \<le> 3)
     \<and> (\<exists>raw \<in> set (buildRawEvents (getWindowSamples samplesAll startM endM) context
                        startM endM).
           EventBody.title ev = EventBody.title raw
           \<and> map evidence (reasons ev)
               = map (\<lambda>r. if length (evidence r) < 3
                          then evidence r @ [eventTimeLine (tsMin ev)] else evidence r)
                   (reasons raw))"
    by blast
qed

theorem evidence_capped_time_line_witness:
  "hd (buildExplainTimeline stableDemo storyDayContext 0 5)
     \<in> set (buildExplainTimeline stableDemo storyDayContext 0 5)
   \<and> list_all (\<lambda>reason. length (evidence reason) \<le> 3)
       (reasons (hd (buildExplainTimeline stableDemo storyDayContext 0 5)))"
proof -
  have "buildExplainTimeline stableDemo storyDayContext 0 5 \<noteq> []"
    by (simp add: window_nonempty_timeline stableDemo_window) (simp add: stableDemo_def)
  then have mem: "hd (buildExplainTimeline stableDemo storyDayContext 0 5)
     \<in> set (buildExplainTimeline stableDemo storyDayContext 0 5)"
    by simp
  with evidence_capped_time_line [of stableDemo storyDayContext 0 5]
  show ?thesis by (simp add: list_all_iff)
qed


section \<open>Timestamps of the timeline\<close>

lemma map_insort_key: "map f (insort_key f x xs) = insort (f x) (map f xs)"
  by (induction xs) simp_all

lemma map_sort_key: "map f (sort_key f xs) = sort (map f xs)"
  by (induction xs) (simp_all add: map_insort_key)

lemma map_finalize_enumerate:
  "map tsMin (map (\<lambda>(index, event). finalizeEvent index event) (enumerate n xs)) = map tsMin xs"
  "map EventBody.title (map (\<lambda>(index, event). finalizeEvent index event) (enumerate n xs))
     = map EventBody.title xs"
  by (induction xs arbitrary: n) (simp_all add: finalizeEvent_fields)

lemma assignTimestamps_title:
  "map EventBody.title (assignTimestamps u i s e evs) = map EventBody.title evs"
  by (induction evs arbitrary: u i) (simp_all add: Let_def)

lemma timeline_tsMin:
  assumes "getWindowSamples samplesAll s e \<noteq> []"
  shows "map tsMin (buildExplainTimeline samplesAll c s e) =
           sort (assignedTimestamps {} s e
                   (map proposedTsMin (buildRawEvents (getWindowSamples samplesAll s e) c s e)))"
  unfolding buildExplainTimeline_nonempty_window [OF assms]
  by (simp only: map_finalize_enumerate map_sort_key assignTimestamps_tsMin)

lemma timeline_title_sorted:
  assumes "getWindowSamples samplesAll s e \<noteq> []"
    and "sorted (assignedTimestamps {} s e
                   (map proposedTsMin (buildRawEvents (getWindowSamples samplesAll s e) c s e)))"
  shows "map EventBody.title (buildExplainTimeline samplesAll c s e) =
           map EventBody.title (buildRawEvents (getWindowSamples samplesAll s e) c s e)"
proof -
  have "sort_key tsMin (assignTimestamps {} 0 s e
           (buildRawEvents (getWindowSamples samplesAll s e) c s e))
        = assignTimestamps {} 0 s e (buildRawEvents (getWindowSamples samplesAll s e) c s e)"
    by (rule sort_key_id_if_sorted) (simp add: assignTimestamps_tsMin assms(2))
  then show ?thesis
    unfolding buildExplainTimeline_nonempty_window [OF assms(1)]
    by (simp only: map_finalize_enumerate assignTimestamps_title)
qed

lemma timeline_length: "length (buildExplainTimeline samplesAll c s e) \<le> MAX_EVENTS"
  by (simp add: buildExplainTimeline_def Let_def)

lemma ensureUniqueTimestamp_range:
  "s < e \<Longrightarrow> s \<le> ensureUniqueTimestamp p u s e \<and> ensureUniqueTimestamp p u s e < e"
  by (auto simp: ensureUniqueTimestamp_def Let_def clamp_def min_def max_def)

lemma timeline_in_window:
  assumes "s < e" "ev \<in> set (buildExplainTimeline samplesAll c s e)"
  shows "s \<le> tsMin ev \<and> tsMin ev < e"
  using timeline_origin [OF assms(2)] ensureUniqueTimestamp_range [OF assms(1)] by metis

text \<open>
  What does hold of the timestamps: the timeline has at most ten events, every timestamp lies
  in \<open>[startMin, endMin)\<close> when \<open>startMin < endMin\<close>, and every timestamp is a multiple of 5
  when the bounds, the sample timestamps and the starts of the context windows are.
\<close>

lemma clamp_cases: "clamp v lo hi = v \<or> clamp v lo hi = lo \<or> clamp v lo hi = hi"
  by (auto simp: clamp_def min_def max_def)

lemma clamp_aligned:
  "(5::int) dvd v \<Longrightarrow> 5 dvd lo \<Longrightarrow> 5 dvd hi \<Longrightarrow> 5 dvd clamp v lo hi"
  using clamp_cases [of v lo hi] by auto

lemma probeForward_aligned: "5 dvd t \<Longrightarrow> 5 dvd probeForward u ub t"
proof (induction u ub t rule: probeForward.induct)
  case (1 usedTs upperBound t)
  show ?case
  proof (cases "t \<in> usedTs \<and> t \<le> upperBound")
    case True
    then have "probeForward usedTs upperBound t = probeForward usedTs upperBound (t + 5)"
      by (subst probeForward.simps) simp
    moreover have "5 dvd t + 5" using "1.prems" by simp
    ultimately show ?thesis using "1.IH" [OF True] by simp
  next
    case False
    then have "probeForward usedTs upperBound t = t"
      by (subst probeForward.simps) auto
    then show ?thesis using "1.prems" by simp
  qed
qed

lemma probeBackward_aligned: "5 dvd t \<Longrightarrow> 5 dvd probeBackward u s t"
proof (induction u s t rule: probeBackward.induct)
  case (1 usedTs startM t)
  show ?case
  proof (cases "t \<in> usedTs \<and> t \<ge> startM")
    case True
    then have "probeBackward usedTs startM t = probeBackward usedTs startM (t - 5)"
      by (subst probeBackward.simps) simp
    moreover have "5 dvd t - 5" using "1.prems" by simp
    ultimately show ?thesis using "1.IH" [OF True] by simp
  next
    case False
    then have "probeBackward usedTs startM t = t"
      by (subst probeBackward.simps) auto
    then show ?thesis using "1.prems" by simp
  qed
qed

lemma ensureUniqueTimestamp_aligned:
  assumes "5 dvd p" "5 dvd s" "5 dvd e"
  shows "5 dvd ensureUniqueTimestamp p u s e"
proof -
  have ub: "5 dvd max s (e - 5)" using assms by (simp add: max_def)
  show ?thesis
    unfolding ensureUniqueTimestamp_def Let_def
    by (intro clamp_aligned probeBackward_aligned probeForward_aligned assms ub)
qed

lemma findFirstSample_aligned:
  "\<forall>x \<in> set ws. 5 dvd ts x \<Longrightarrow> 5 dvd s \<Longrightarrow> 5 dvd findFirstSample ws P s"
  by (auto simp: findFirstSample_def find_Some_iff split: option.splits)

lemma raw_anchor_aligned:
  assumes ws: "\<forall>x \<in> set ws. 5 dvd ts x" and s: "5 dvd s"
    and c: "5 dvd startMin (peakWindow c)" "5 dvd startMin (stormWatchWindow c)"
    and r: "r \<in> set (buildRawEvents ws c s e)"
  shows "5 dvd proposedTsMin r"
proof -
  have ov: "5 dvd overlapStart (overlapsWindow s e (peakWindow c))"
    "5 dvd overlapStart (overlapsWindow s e (stormWatchWindow c))"
    using s c by (simp_all add: overlapsWindow_def Let_def max_def)
  have ff: "5 dvd findFirstSample ws P s" for P
    using ws s by (rule findFirstSample_aligned)
  have ex: "5 dvd t" if "hasConsecutiveGridExport ws 3 = Some t" for t
  proof -
    from hasConsecutiveGridExport_Some [OF that] obtain i where
      "exportRunAt ws i" "t = ts (ws ! i)" by blast
    then have "i < length ws" by (simp add: exportRunAt_def)
    then show ?thesis using ws \<open>t = ts (ws ! i)\<close> by simp
  qed
  from r consider
      (det) "r \<in> set (detectedEvents ws c s e)"
    | (stable) "r = stableOperationEvent s e (summarizeWindow ws c) (average ws batteryKw)"
    by (auto simp: buildRawEvents_def Let_def split: if_splits)
  then show ?thesis
  proof cases
    case det
    then show ?thesis
      using ov ff ex
      by (auto simp: detectedEvents_def Let_def peakRateEvents_def stormWatchEvents_def
          batteryChargingEvents_def batteryDischargingEvents_def exportEvents_def
          holdingEvents_def split: if_splits option.splits)
  next
    case stable
    then show ?thesis using s by (simp add: stableOperationEvent_def)
  qed
qed

lemma timeline_aligned:
  assumes "\<forall>x \<in> set samplesAll. 5 dvd ts x" "5 dvd s" "5 dvd e"
    and "5 dvd startMin (peakWindow c)" "5 dvd startMin (stormWatchWindow c)"
    and ev: "ev \<in> set (buildExplainTimeline samplesAll c s e)"
  shows "5 dvd tsMin ev"
proof -
  have ws: "\<forall>x \<in> set (getWindowSamples samplesAll s e). 5 dvd ts x"
    using assms(1) by (simp add: getWindowSamples_def Let_def)
  from timeline_origin [OF ev] obtain r u where
    r: "r \<in> set (buildRawEvents (getWindowSamples samplesAll s e) c s e)"
      "tsMin ev = ensureUniqueTimestamp (proposedTsMin r) u s e"
    by blast
  from raw_anchor_aligned [OF ws assms(2,4,5) r(1)] have "5 dvd proposedTsMin r" .
  then show ?thesis
    unfolding r(2) using assms(2,3) by (rule ensureUniqueTimestamp_aligned)
qed

lemma stormDemo_window: "getWindowSamples stormDemo 1205 1235 = stormDemo"
  by (simp add: getWindowSamples_def stormDemo_def)



lemma stormDemo_facts:
  "average stormDemo batteryKw = 7 / 15"
  "average stormDemo solarKw = 0"
  "average stormDemo homeKw = 2"
  "hasConsecutiveGridExport stormDemo 3 = None"
  "findFirstSample stormDemo (\<lambda>sample. batteryKw sample > 0.4) 1205 = 1230"
  "stormDemo \<noteq> []"
  by (simp_all add: stormDemo_def average_def hasConsecutiveGridExport_def findFirstSample_def)

lemma stormDemo_overlaps:
  "overlapsWindow 1205 1235 (peakWindow storyDayContext)
     = \<lparr> overlaps = True, overlapStart = 1205, overlapEnd = 1235 \<rparr>"
  "overlapsWindow 1205 1235 (stormWatchWindow storyDayContext)
     = \<lparr> overlaps = True, overlapStart = 1230, overlapEnd = 1235 \<rparr>"
  "stormWatchEnabled storyDayContext"
  by (simp_all add: overlapsWindow_def storyDayContext_def)

lemma stormDemo_raw:
  "map proposedTsMin (buildRawEvents stormDemo storyDayContext 1205 1235) = [1205, 1230, 1230]"
  "map EventBody.title (buildRawEvents stormDemo storyDayContext 1205 1235)
     = [''Peak rate period'', ''Storm Watch'', ''Battery charging'']"
  unfolding buildRawEvents_def detectedEvents_def Let_def peakRateEvents_def
    stormWatchEvents_def batteryChargingEvents_def batteryDischargingEvents_def
    exportEvents_def holdingEvents_def stormDemo_facts stormDemo_overlaps(1,2)
  by (simp_all add: stormDemo_overlaps(3))

text \<open>
  The third event: the forward probe leaves 1230, which is taken, for 1235, which is free
  but beyond the upper bound 1230; the backward probe does not run, since 1235 is free; the
  final clamp returns 1230.
\<close>

lemma stormDemo_probeForward: "probeForward {1230, 1205} 1230 1230 = 1235"
  apply (subst probeForward.simps)
  apply simp
  apply (subst probeForward.simps)
  apply simp
  done

lemma stormDemo_unique:
  "ensureUniqueTimestamp 1205 {} 1205 1235 = 1205"
  "ensureUniqueTimestamp 1230 {1205} 1205 1235 = 1230"
  "ensureUniqueTimestamp 1230 {1230, 1205} 1205 1235 = 1230"
  by (simp_all add: ensureUniqueTimestamp_def Let_def clamp_def stormDemo_probeForward
      probeForward_unused probeBackward_unused)

lemma stormDemo_assigned:
  "assignedTimestamps {} 1205 1235 [1205, 1230, 1230] = [1205, 1230, 1230]"
  by (simp add: Let_def stormDemo_unique)

text \<open>
  Claim C4 says that the timeline has at most ten events, that every timestamp lies in
  \<open>[startMin, endMin)\<close> on the 5-minute grid, and that the timestamps are pairwise distinct.
  The code does not keep the last part. Take a window of six samples that ends five minutes
  into the Storm Watch interval, with the battery idle near the reserve during the peak and
  charging at 2.8 kW in the last sample: the peak event takes 1205, the Storm Watch event
  1230, and the charging event, anchored at 1230 as well, is given 1230 again.
\<close>

theorem timeline_duplicate_timestamps:
  "map tsMin (buildExplainTimeline stormDemo storyDayContext 1205 1235) = [1205, 1230, 1230]
   \<and> map EventBody.title (buildExplainTimeline stormDemo storyDayContext 1205 1235)
       = [''Peak rate period'', ''Storm Watch'', ''Battery charging'']
   \<and> \<not> distinct (map tsMin (buildExplainTimeline stormDemo storyDayContext 1205 1235))"
proof -
  have ne: "getWindowSamples stormDemo 1205 1235 \<noteq> []"
    by (simp add: stormDemo_window stormDemo_facts)
  have t: "map tsMin (buildExplainTimeline stormDemo storyDayContext 1205 1235)
      = [1205, 1230, 1230]"
    unfolding timeline_tsMin [OF ne] stormDemo_window stormDemo_raw stormDemo_assigned
    by simp
  have "sorted (assignedTimestamps {} 1205 1235
          (map proposedTsMin
             (buildRawEvents (getWindowSamples stormDemo 1205 1235) storyDayContext 1205 1235)))"
    unfolding stormDemo_window stormDemo_raw stormDemo_assigned by simp
  from timeline_title_sorted [OF ne this]
  have "map EventBody.title (buildExplainTimeline stormDemo storyDayContext 1205 1235)
      = [''Peak rate period'', ''Storm Watch'', ''Battery charging'']"
    unfolding stormDemo_window stormDemo_raw .
  with t show ?thesis by simp
qed


section \<open>Replay against the generated day\<close>

lemma round_dec_mono: "x \<le> y \<Longrightarrow> round_dec x d \<le> round_dec y d"
proof -
  assume xy: "x \<le> y"
  have pos: "(0::real) < 10 ^ d" by simp
  have fl: "a \<le> b \<Longrightarrow> real_of_int \<lfloor>a * 10 ^ d + 1 / 2\<rfloor> / 10 ^ d
      \<le> real_of_int \<lfloor>b * 10 ^ d + 1 / 2\<rfloor> / 10 ^ d" for a b :: real
  proof -
    assume "a \<le> b"
    then have "a * 10 ^ d + 1 / 2 \<le> b * 10 ^ d + 1 / 2" using pos by simp
    then have "\<lfloor>a * 10 ^ d + 1 / 2\<rfloor> \<le> \<lfloor>b * 10 ^ d + 1 / 2\<rfloor>" by (rule floor_mono)
    then show ?thesis using pos by (simp add: divide_right_mono)
  qed
  have nonneg: "0 \<le> a \<Longrightarrow> 0 \<le> real_of_int \<lfloor>a * 10 ^ d + 1 / 2\<rfloor> / 10 ^ d" for a :: real
  proof -
    assume "0 \<le> a"
    then have "0 \<le> a * 10 ^ d + 1 / 2" by simp
    then have "0 \<le> \<lfloor>a * 10 ^ d + 1 / 2\<rfloor>" by simp
    then show ?thesis by simp
  qed
  consider (nn) "x < 0" "y < 0" | (np) "x < 0" "0 \<le> y" | (pp) "0 \<le> x" "0 \<le> y"
    using xy by linarith
  then show ?thesis
  proof cases
    case nn
    then show ?thesis using fl [of "- y" "- x"] xy by (simp add: round_dec_def)
  next
    case np
    have "round_dec x d = - (real_of_int \<lfloor>(- x) * 10 ^ d + 1 / 2\<rfloor> / 10 ^ d)"
      "round_dec y d = real_of_int \<lfloor>y * 10 ^ d + 1 / 2\<rfloor> / 10 ^ d"
      using np by (simp_all add: round_dec_def)
    moreover have "0 \<le> real_of_int \<lfloor>(- x) * 10 ^ d + 1 / 2\<rfloor> / 10 ^ d"
      using np by (intro nonneg) simp
    moreover have "0 \<le> real_of_int \<lfloor>y * 10 ^ d + 1 / 2\<rfloor> / 10 ^ d"
      using np by (intro nonneg) simp
    ultimately show ?thesis by linarith
  next
    case pp
    then show ?thesis using fl [of x y] xy by (simp add: round_dec_def)
  qed
qed

lemma round_dec_values:
  "round_dec 0 2 = 0" "round_dec (- 0.2) 2 = - 0.2"
  "round_dec 0.55 2 = 0.55" "round_dec 3.6 2 = 3.6"
  "round_dec 61.9 1 = 61.9"
  by (simp_all add: round_dec_def)

lemma clamp_bounds: "lo \<le> hi \<Longrightarrow> lo \<le> clamp v lo hi \<and> clamp v lo hi \<le> hi"
  by (simp add: clamp_def)

lemma homeKwAt_bounds: "0.55 \<le> homeKwAt minute index \<and> homeKwAt minute index \<le> 3.6"
  unfolding homeKwAt_def Let_def by (rule clamp_bounds) simp

lemma solarKwAt_night: "minute < 420 \<Longrightarrow> solarKwAt minute index = 0"
  by (simp add: solarKwAt_def)

lemma batteryTargetKw_midnight:
  "batteryTargetKw 0 62 0 h = - 0.2"
  by (simp add: batteryTargetKw_def isInWindow_def storyDayContext_def Let_def)

lemma clampBatteryBySoc_midnight: "clampBatteryBySoc (- 0.2) 62 = - 0.2"
  by (simp add: clampBatteryBySoc_def storyDayContext_def Let_def SAMPLE_STEP_MINUTES_def
      BATTERY_CAPACITY_KWH_def)

lemma storyDayStep_midnight:
  "storyDayStep 62 0 =
     (\<lparr> ts = 0, solarKw = 0,
        homeKw = round_dec (homeKwAt 0 0) 2,
        batteryKw = - 0.2,
        gridKw = round_dec (round_dec (homeKwAt 0 0) 2 - 0.2) 2,
        socPct = 61.9 \<rparr>,
      62 - 10 / 81)"
proof -
  have m0: "int 0 * SAMPLE_STEP_MINUTES = 0" by simp
  have sol: "round_dec (solarKwAt 0 0) 2 = 0"
    by (simp add: solarKwAt_night round_dec_values)
  have cap: "(if (- 0.2 :: real) > 0 \<and> P then a else - 0.2) = - 0.2" for P and a :: real
    by simp
  have bat: "round_dec (clampBatteryBySoc (- 0.2) 62) 2 = - 0.2"
    by (simp only: clampBatteryBySoc_midnight round_dec_values)
  have soc: "clamp (62 + ((- 0.2 * (real_of_int SAMPLE_STEP_MINUTES / 60)) / BATTERY_CAPACITY_KWH) * 100)
               (backupReservePct storyDayContext) 100 = 62 - 10 / 81"
    by (simp add: clamp_def storyDayContext_def SAMPLE_STEP_MINUTES_def BATTERY_CAPACITY_KWH_def)
  have r: "round_dec (62 - 10 / 81) 1 = 61.9"
    by (simp add: round_dec_def)
  have g: "round_dec (homeKwAt 0 0) 2 - 0 + - 0.2 = round_dec (homeKwAt 0 0) 2 - 0.2"
    by simp
  show ?thesis
    unfolding storyDayStep_def Let_def m0 sol batteryTargetKw_midnight cap bat soc r g
    by (rule refl)
qed


lemma storyDayStep_ts: "ts (fst (storyDayStep soc index)) = int index * 5"
  unfolding storyDayStep_def Let_def by (simp add: SAMPLE_STEP_MINUTES_def)

lemma storyDayLoop_ts:
  "s \<in> set (storyDayLoop soc is) \<Longrightarrow> \<exists>i \<in> set is. ts s = int i * 5"
proof (induction "is" arbitrary: soc)
  case Nil
  then show ?case by simp
next
  case (Cons index rest)
  obtain s0 soc' where st: "storyDayStep soc index = (s0, soc')"
    by (cases "storyDayStep soc index")
  with Cons.prems have "s = s0 \<or> s \<in> set (storyDayLoop soc' rest)" by simp
  then show ?case
  proof
    assume "s = s0"
    then have "ts s = int index * 5" using storyDayStep_ts [of soc index] st by simp
    then show ?thesis by simp
  next
    assume "s \<in> set (storyDayLoop soc' rest)"
    from Cons.IH [OF this] show ?thesis by auto
  qed
qed

lemma storyDaySamples_Cons:
  "storyDaySamples =
     fst (storyDayStep 62 0) # storyDayLoop (snd (storyDayStep 62 0)) [Suc 0..<288]"
proof -
  have "[0..<288] = 0 # [Suc 0..<288]" by (rule upt_conv_Cons) simp
  moreover have "SAMPLE_COUNT = 288"
    by (simp add: SAMPLE_COUNT_def MINUTES_PER_DAY_def SAMPLE_STEP_MINUTES_def)
  ultimately show ?thesis
    by (simp add: storyDaySamples_def buildStoryDaySamples_def SOC_START_PCT_def
        split: prod.splits)
qed

lemma midnight_window:
  "getWindowSamples storyDaySamples 0 5 = [fst (storyDayStep 62 0)]"
proof -
  have first: "ts (fst (storyDayStep 62 0)) = 0" using storyDayStep_ts [of 62 0] by simp
  have rest: "\<forall>s \<in> set (storyDayLoop (snd (storyDayStep 62 0)) [Suc 0..<288]).
      \<not> (0 \<le> ts s \<and> ts s < 5)"
  proof
    fix s assume "s \<in> set (storyDayLoop (snd (storyDayStep 62 0)) [Suc 0..<288])"
    from storyDayLoop_ts [OF this] obtain i where "i \<in> set [Suc 0..<288]" "ts s = int i * 5"
      by blast
    then show "\<not> (0 \<le> ts s \<and> ts s < 5)" by simp
  qed
  then have "filter (\<lambda>s. 0 \<le> ts s \<and> ts s < 5)
      (storyDayLoop (snd (storyDayStep 62 0)) [Suc 0..<288]) = []"
    by (simp add: filter_empty_conv)
  then show ?thesis
    unfolding storyDaySamples_Cons getWindowSamples_def Let_def using first by simp
qed

lemma midnight_step:
  assumes "ts s = 0" "solarKw s = 0" "homeKw s = h" "0.55 \<le> h" "h \<le> 3.6"
  shows "simulateTimeBasedStep s storyDayContext 61.9 30 1020 =
           \<lparr> nextSocPct = 61.9 - h * (50 / 81), gridKw_step = 0, batteryKw_step = - h \<rparr>"
proof -
  have b: "maxDischargeKw (computeEnergyBounds 61.9 30) = 51.678"
    by (simp add: computeEnergyBounds_def Let_def BATTERY_CAPACITY_KWH_def STEP_HOURS_def)
  have sp: "simulateSelfPoweredStep s 61.9 30 = applyEnergyStep (- h) 0 h 61.9 30"
    using assms by (simp add: simulateSelfPoweredStep_def Let_def b MAX_DISCHARGE_KW_def)
  have ap: "applyEnergyStep (- h) 0 h 61.9 30 =
      \<lparr> nextSocPct = 61.9 - h * (50 / 81), gridKw_step = 0, batteryKw_step = - h \<rparr>"
    using assms(4,5)
    by (simp add: applyEnergyStep_def Let_def clamp_def MAX_DISCHARGE_KW_def MAX_CHARGE_KW_def
        STEP_HOURS_def BATTERY_CAPACITY_KWH_def)
  have "simulateTimeBasedStep s storyDayContext 61.9 30 1020 = simulateSelfPoweredStep s 61.9 30"
    using assms(1) by (simp add: simulateTimeBasedStep_def Let_def storyDayContext_def)
  with sp ap show ?thesis by simp
qed


lemma midnight_deltas:
  assumes w: "getWindowSamples samplesAll 0 5 =
                [\<lparr> ts = 0, solarKw = 0, homeKw = h, batteryKw = - 0.2,
                   gridKw = round_dec (h - 0.2) 2, socPct = 61.9 \<rparr>]"
    and h: "0.55 \<le> h" "h \<le> 3.6"
  shows "endSocPct (deltas (replayWindow samplesAll storyDayContext 0 5
                              (ambientOverrides storyDayContext))) \<le> - 0.3
       \<and> gridImportKwh (deltas (replayWindow samplesAll storyDayContext 0 5
                                  (ambientOverrides storyDayContext))) \<le> - 0.03
       \<and> batteryDischargeKwh (deltas (replayWindow samplesAll storyDayContext 0 5
                                        (ambientOverrides storyDayContext))) \<ge> 0.03"
proof -
  let ?R = "replayWindow samplesAll storyDayContext 0 5 (ambientOverrides storyDayContext)"
  define s where "s = \<lparr> ts = 0, solarKw = 0, homeKw = h, batteryKw = - 0.2,
                          gridKw = round_dec (h - 0.2) 2, socPct = 61.9 \<rparr>"
  define g where "g = round_dec (h - 0.2) 2"
  define A where "A = round_dec (max g 0 * STEP_HOURS) 2"
  define E where "E = round_dec (61.9 - h * (50 / 81)) 1"
  define D where "D = round_dec (h * STEP_HOURS) 2"
  have ws: "getWindowSamples samplesAll 0 5 = [s]" unfolding s_def by (rule w)
  have f: "ts s = 0" "solarKw s = 0" "homeKw s = h" "socPct s = 61.9" "gridKw s = g"
    "batteryKw s = - 0.2"
    by (simp_all add: s_def g_def)
  have step: "simulateTimeBasedStep s storyDayContext 61.9 30 1020 =
           \<lparr> nextSocPct = 61.9 - h * (50 / 81), gridKw_step = 0, batteryKw_step = - h \<rparr>"
    using f(1,2,3) h by (rule midnight_step)
  have mode: "mode storyDayContext \<noteq> ''Self-Powered''"
    "backupReservePct storyDayContext = 30" "startMin (peakWindow storyDayContext) = 1020"
    by (simp_all add: storyDayContext_def)
  have loop: "replayLoop (mode storyDayContext) storyDayContext 30 1020
      (61.9, \<lparr> gridImport = 0, gridExport = 0, batteryCharge = 0, batteryDischarge = 0 \<rparr>) [s]
      = (61.9 - h * (50 / 81),
         \<lparr> gridImport = 0, gridExport = 0, batteryCharge = 0,
           batteryDischarge = h * STEP_HOURS \<rparr>)"
    using h by (simp add: mode step accumulateTotals_def STEP_HOURS_def)
  have num: "round_dec 61.9 1 = 61.9" "round_dec 0 2 = 0"
    "round_dec (max (- (- 0.2)) 0 * STEP_HOURS) 2 = 0.02"
    by (simp_all add: round_dec_def STEP_HOURS_def)
  have sm: "endSoc (summarizeWindow [s] storyDayContext) = 61.9"
    "totalGridImportKwhApprox (summarizeWindow [s] storyDayContext) = A"
    "totalBatteryDischargeKwhApprox (summarizeWindow [s] storyDayContext) = 0.02"
    unfolding summarizeWindow.simps Let_def A_def
    by (simp_all only: foldl.simps f num ReplaySummary.simps ExplainSummary.simps list.sel
        last.simps add_0 if_True simp_thms)
  have d: "endSocPct (deltas ?R) = round_dec (E - 61.9) 1"
    "gridImportKwh (deltas ?R) = round_dec (0 - A) 2"
    "batteryDischargeKwh (deltas ?R) = round_dec (D - 0.02) 2"
    unfolding replayWindow_def Let_def ws ambientOverrides_def E_def D_def
    by (simp_all add: mode f(4) loop sm finalizeSummary_def num
        del: replayLoop.simps summarizeWindow.simps)
  have "E \<le> round_dec (61.9 - 0.55 * (50 / 81)) 1"
    unfolding E_def by (intro round_dec_mono) (use h in simp)
  also have "\<dots> = 61.6" by (simp add: round_dec_def)
  finally have "E - 61.9 \<le> - 0.3" by simp
  then have "round_dec (E - 61.9) 1 \<le> round_dec (- 0.3) 1" by (rule round_dec_mono)
  also have "\<dots> = - 0.3" by (simp add: round_dec_def)
  finally have e: "endSocPct (deltas ?R) \<le> - 0.3" unfolding d .
  have "round_dec (0.55 - 0.2) 2 \<le> g"
    unfolding g_def by (intro round_dec_mono) (use h in simp)
  moreover have "round_dec (0.55 - 0.2) 2 = 0.35" by (simp add: round_dec_def)
  ultimately have g35: "0.35 \<le> g" by simp
  then have "0.35 * (5 / 60) \<le> max g 0 * STEP_HOURS" by (simp add: STEP_HOURS_def)
  then have "round_dec (0.35 * (5 / 60)) 2 \<le> A" unfolding A_def by (rule round_dec_mono)
  moreover have "round_dec (0.35 * (5 / 60)) 2 = 0.03" by (simp add: round_dec_def)
  ultimately have "0 - A \<le> - 0.03" by simp
  then have "round_dec (0 - A) 2 \<le> round_dec (- 0.03) 2" by (rule round_dec_mono)
  also have "\<dots> = - 0.03" by (simp add: round_dec_def)
  finally have i: "gridImportKwh (deltas ?R) \<le> - 0.03" unfolding d .
  have "0.55 * (5 / 60) \<le> h * STEP_HOURS" using h by (simp add: STEP_HOURS_def)
  then have "round_dec (0.55 * (5 / 60)) 2 \<le> D" unfolding D_def by (rule round_dec_mono)
  moreover have "round_dec (0.55 * (5 / 60)) 2 = 0.05" by (simp add: round_dec_def)
  ultimately have "0.03 \<le> D - 0.02" by simp
  then have "round_dec 0.03 2 \<le> round_dec (D - 0.02) 2" by (rule round_dec_mono)
  moreover have "round_dec 0.03 2 = 0.03" by (simp add: round_dec_def)
  ultimately have b: "batteryDischargeKwh (deltas ?R) \<ge> 0.03" unfolding d by simp
  from e i b show ?thesis by simp
qed

text \<open>
  Claim C3, as stated, fails on the first window of the generated day. In \<open>[0, 5)\<close> the
  generator discharges 0.2 kW (its overnight trickle) and imports the rest of the home load;
  the replay, with the overrides equal to the context, finds the sample outside the peak and
  storm windows and follows the Self-Powered rule, which covers the whole home load from the
  battery. Whatever the home load of that sample (it lies in \<open>[0.55, 3.6]\<close>), the three deltas
  are at least three rounding units away from zero.
\<close>

theorem replay_ambient_not_zero:
  "endSocPct (deltas (replayWindow storyDaySamples storyDayContext 0 5
                        (ambientOverrides storyDayContext))) \<le> - 0.3
   \<and> gridImportKwh (deltas (replayWindow storyDaySamples storyDayContext 0 5
                              (ambientOverrides storyDayContext))) \<le> - 0.03
   \<and> batteryDischargeKwh (deltas (replayWindow storyDaySamples storyDayContext 0 5
                                    (ambientOverrides storyDayContext))) \<ge> 0.03"
proof (rule midnight_deltas)
  show "getWindowSamples storyDaySamples 0 5 =
      [\<lparr> ts = 0, solarKw = 0, homeKw = round_dec (homeKwAt 0 0) 2, batteryKw = - 0.2,
         gridKw = round_dec (round_dec (homeKwAt 0 0) 2 - 0.2) 2, socPct = 61.9 \<rparr>]"
    unfolding midnight_window storyDayStep_midnight by simp
  have "round_dec 0.55 2 \<le> round_dec (homeKwAt 0 0) 2"
    by (intro round_dec_mono) (use homeKwAt_bounds [of 0 0] in simp)
  moreover have "round_dec 0.55 2 = 0.55" by (simp add: round_dec_def)
  ultimately show "0.55 \<le> round_dec (homeKwAt 0 0) 2" by simp
  have "round_dec (homeKwAt 0 0) 2 \<le> round_dec 3.6 2"
    by (intro round_dec_mono) (use homeKwAt_bounds [of 0 0] in simp)
  moreover have "round_dec 3.6 2 = 3.6" by (simp add: round_dec_def)
  ultimately show "round_dec (homeKwAt 0 0) 2 \<le> 3.6" by simp
qed

text \<open>
  Claim C3, amended. With overrides equal to the ambient context the replay returns what it
  returns with no overrides at all. Each delta is the rounded difference between the
  replayed and the actual summary value, and all three are zero when the window contains no
  sample.
\<close>

theorem replay_ambient_overrides:
  "replayWindow samplesAll context startM endM (ambientOverrides context)
     = replayWindow samplesAll context startM endM noOverrides
   \<and> endSocPct (deltas (replayWindow samplesAll context startM endM (ambientOverrides context)))
       = round_dec (endSoc (replay (replayWindow samplesAll context startM endM
                                      (ambientOverrides context)))
                    - endSoc (actual (replayWindow samplesAll context startM endM
                                        (ambientOverrides context)))) 1
   \<and> gridImportKwh (deltas (replayWindow samplesAll context startM endM
                               (ambientOverrides context)))
       = round_dec (totalGridImportKwhApprox
                      (replay (replayWindow samplesAll context startM endM
                                 (ambientOverrides context)))
                    - totalGridImportKwhApprox
                        (actual (replayWindow samplesAll context startM endM
                                   (ambientOverrides context)))) 2
   \<and> batteryDischargeKwh (deltas (replayWindow samplesAll context startM endM
                                     (ambientOverrides context)))
       = round_dec (totalBatteryDischargeKwhApprox
                      (replay (replayWindow samplesAll context startM endM
                                 (ambientOverrides context)))
                    - totalBatteryDischargeKwhApprox
                        (actual (replayWindow samplesAll context startM endM
                                   (ambientOverrides context)))) 2
   \<and> (getWindowSamples samplesAll startM endM = [] \<longrightarrow>
        deltas (replayWindow samplesAll context startM endM (ambientOverrides context))
          = \<lparr> endSocPct = 0, gridImportKwh = 0, batteryDischargeKwh = 0 \<rparr>)"
proof (intro conjI impI)
  show "replayWindow samplesAll context startM endM (ambientOverrides context)
     = replayWindow samplesAll context startM endM noOverrides"
    by (simp add: replayWindow_def ambientOverrides_def noOverrides_def)
qed (cases "getWindowSamples samplesAll startM endM";
     simp add: replayWindow_def Let_def round_dec_def)+

theorem replay_ambient_overrides_witness:
  "getWindowSamples [] 0 5 = []
   \<and> deltas (replayWindow [] storyDayContext 0 5 (ambientOverrides storyDayContext))
       = \<lparr> endSocPct = 0, gridImportKwh = 0, batteryDischargeKwh = 0 \<rparr>"
proof -
  have w: "getWindowSamples [] 0 5 = []" by (simp add: getWindowSamples_def)
  from replay_ambient_overrides [of "[]" storyDayContext 0 5] w show ?thesis by blast
qed


end
